theory Spec2Isabelle
  imports Complex_Main
begin

section \<open>The escape-room backend of \<open>backend/app.py\<close>\<close>

text \<open>
  The backend keeps one dictionary \<open>game_states\<close> from session ids to session records
  and reads one constant dictionary \<open>GAME_CONFIG\<close>. Each of the four route handlers is
  modelled as a function from the dictionary of sessions (and the request's parameters)
  to the outcome of the request and the dictionary the handler leaves behind.

  Conventions of the embedding:
  \<^item> \<open>time.time()\<close> is a parameter of the handler that reads the clock. Python's floats
    are taken as real numbers: the handlers only subtract two readings, compare with
    zero and truncate, and no statement below depends on rounding.
  \<^item> A Python \<open>str\<close> is a \<open>string\<close>, and \<open>str.lower\<close> is modelled on ASCII letters
    (every other character is left as it is).
  \<^item> A dictionary indexed with a key it does not hold raises \<open>KeyError\<close>; a method
    called on a value that has none raises \<open>AttributeError\<close>; Flask refuses a request
    body it cannot read as JSON with an \<open>HTTPException\<close> that carries the status. All are
    values of \<open>py_error\<close>, and a handler that raises leaves the mutations it had made
    before.
  \<^item> The inner dictionaries \<open>{"solved": b}\<close> and \<open>{"found": b}\<close> of a session hold one
    key each and are modelled by the boolean itself.
\<close>

subsection \<open>JSON values and responses\<close>

datatype json =
    JNull
  | JBool bool
  | JInt int
  | JStr string
  | JList "json list"
  | JObj "(string \<times> json) list"

datatype py_error = KeyError | AttributeError | HTTPException nat

text \<open>A response is the body handed to \<open>jsonify\<close> and the HTTP status code.\<close>

type_synonym response = "json \<times> nat"

type_synonym outcome = "py_error + response"

text \<open>Reading a field of a response body.\<close>

fun json_get :: "json \<Rightarrow> string \<Rightarrow> json option" where
  "json_get (JObj kvs) k = map_of kvs k"
| "json_get _ k = None"

subsection \<open>Python's \<open>int\<close>, \<open>str\<close> and \<open>lower\<close>\<close>

text \<open>\<open>int(x)\<close> of a float truncates towards zero.\<close>

definition py_int :: "real \<Rightarrow> int" where
  "py_int x = (if 0 \<le> x then \<lfloor>x\<rfloor> else \<lceil>x\<rceil>)"

definition digit_char :: "nat \<Rightarrow> char" where
  "digit_char d = char_of (48 + d)"

function str_nat :: "nat \<Rightarrow> string" where
  "str_nat n = (if n < 10 then [digit_char n] else str_nat (n div 10) @ [digit_char (n mod 10)])"
  by pat_completeness auto
termination
  by (relation "measure (\<lambda>n. n)") auto

declare str_nat.simps [simp del]

text \<open>\<open>str(i)\<close> of an integer: its decimal digits, after a minus sign when negative.\<close>

definition str_int :: "int \<Rightarrow> string" where
  "str_int i = (if i < 0 then CHR ''-'' # str_nat (nat (- i)) else str_nat (nat i))"

definition lower_char :: "char \<Rightarrow> char" where
  "lower_char c =
     (let n = (of_char c :: nat) in if 65 \<le> n \<and> n \<le> 90 then char_of (n + 32) else c)"

definition lower :: "string \<Rightarrow> string" where
  "lower s = map lower_char s"

subsection \<open>The configuration\<close>

record puzzle_def =
  p_solved :: bool
  solution :: "string option"
  requires :: "string list option"
  p_description :: string

record item_def =
  i_found :: bool
  location :: string
  i_description :: string

text \<open>
  The dictionaries of the configuration are association lists in the order the source
  writes them, since the handlers iterate over them; their keys are distinct, as the
  keys of a dictionary are.
\<close>

record config =
  time_limit :: int
  cfg_puzzles :: "(string \<times> puzzle_def) list"
  cfg_items :: "(string \<times> item_def) list"

definition GAME_CONFIG :: config where
  "GAME_CONFIG = \<lparr>
     time_limit = 30 * 60,
     cfg_puzzles = [
       (''safe'', \<lparr>p_solved = False, solution = Some ''1234'', requires = None,
          p_description = ''A locked safe with a 4-digit combination.''\<rparr>),
       (''bookshelf'', \<lparr>p_solved = False, solution = Some ''red,blue,green'', requires = None,
          p_description = ''A bookshelf with colored books that need to be arranged.''\<rparr>),
       (''computer'', \<lparr>p_solved = False, solution = Some ''password'', requires = None,
          p_description = ''A locked computer that needs a password.''\<rparr>),
       (''door'', \<lparr>p_solved = False, solution = None,
          requires = Some [''safe'', ''bookshelf'', ''computer''],
          p_description = ''The exit door. Requires all other puzzles to be solved.''\<rparr>)],
     cfg_items = [
       (''key'', \<lparr>i_found = False, location = ''safe'',
          i_description = ''A small golden key.''\<rparr>),
       (''note'', \<lparr>i_found = False, location = ''bookshelf'',
          i_description = ''A handwritten note with a clue.''\<rparr>),
       (''usb_drive'', \<lparr>i_found = False, location = ''computer'',
          i_description = ''A USB drive with important data.''\<rparr>)]\<rparr>"

subsection \<open>Sessions\<close>

text \<open>
  The key \<open>"success"\<close> is absent from a fresh session (\<open>state.get("success", False)\<close>
  reads it), hence the option.
\<close>

record session =
  start_time :: real
  puzzles :: "string \<rightharpoonup> bool"
  items :: "string \<rightharpoonup> bool"
  hints_used :: int
  completed :: bool
  success :: "bool option"

type_synonym game_states = "string \<rightharpoonup> session"

definition create_new_game_state :: "config \<Rightarrow> real \<Rightarrow> session" where
  "create_new_game_state cfg now = \<lparr>
     start_time = now,
     puzzles = map_of (map (\<lambda>(k, d). (k, False)) (cfg_puzzles cfg)),
     items = map_of (map (\<lambda>(k, d). (k, False)) (cfg_items cfg)),
     hints_used = 0,
     completed = False,
     success = None\<rparr>"

text \<open>
  \<open>new_game\<close> reads the clock twice: \<open>t_id\<close> for the session id, then \<open>t_start\<close> in
  \<open>create_new_game_state\<close>. The assignment \<open>game_states[session_id] = ...\<close> replaces
  whatever the dictionary held under that id.
\<close>

definition new_game :: "config \<Rightarrow> real \<Rightarrow> real \<Rightarrow> game_states \<Rightarrow> outcome \<times> game_states" where
  "new_game cfg t_id t_start gs =
     (let session_id = str_int (py_int t_id);
          gs' = gs(session_id \<mapsto> create_new_game_state cfg t_start)
      in (Inr (JObj [(''session_id'', JStr session_id),
                     (''message'', JStr ''New game started''),
                     (''time_limit'', JInt (time_limit cfg))], 200), gs'))"

subsection \<open>\<open>get_game_state\<close>\<close>

text \<open>Lines 85 and 86: the time left, never stored.\<close>

definition time_remaining :: "config \<Rightarrow> real \<Rightarrow> session \<Rightarrow> real" where
  "time_remaining cfg now state =
     (let elapsed_time = now - start_time state
      in max 0 (real_of_int (time_limit cfg) - elapsed_time))"

text \<open>The two dictionary comprehensions of the response (lines 95 to 106).\<close>

fun puzzles_view :: "(string \<times> puzzle_def) list \<Rightarrow> session \<Rightarrow> py_error + (string \<times> json) list" where
  "puzzles_view [] state = Inr []"
| "puzzles_view ((k, d) # rest) state =
     (case puzzles state k of
        None \<Rightarrow> Inl KeyError
      | Some b \<Rightarrow>
          (case puzzles_view rest state of
             Inl e \<Rightarrow> Inl e
           | Inr kvs \<Rightarrow>
               Inr ((k, JObj [(''solved'', JBool b),
                              (''description'', JStr (p_description d))]) # kvs)))"

fun items_view :: "(string \<times> item_def) list \<Rightarrow> session \<Rightarrow> py_error + (string \<times> json) list" where
  "items_view [] state = Inr []"
| "items_view ((k, d) # rest) state =
     (case items state k of
        None \<Rightarrow> Inl KeyError
      | Some b \<Rightarrow>
          (case items_view rest state of
             Inl e \<Rightarrow> Inl e
           | Inr kvs \<Rightarrow>
               Inr ((k, JObj [(''found'', JBool b),
                              (''description'',
                               JStr (if b then i_description d else ''???''))]) # kvs)))"

definition get_game_state :: "config \<Rightarrow> real \<Rightarrow> string \<Rightarrow> game_states \<Rightarrow> outcome \<times> game_states" where
  "get_game_state cfg now session_id gs =
     (case gs session_id of
        None \<Rightarrow> (Inr (JObj [(''error'', JStr ''Game session not found'')], 404), gs)
      | Some state0 \<Rightarrow>
          (let tr = time_remaining cfg now state0;
               state = (if tr \<le> 0 \<and> \<not> completed state0
                        then state0\<lparr>completed := True, success := Some False\<rparr>
                        else state0);
               gs' = gs(session_id \<mapsto> state)
           in (case puzzles_view (cfg_puzzles cfg) state of
                 Inl e \<Rightarrow> (Inl e, gs')
               | Inr pv \<Rightarrow>
                   (case items_view (cfg_items cfg) state of
                      Inl e \<Rightarrow> (Inl e, gs')
                    | Inr iv \<Rightarrow>
                        (Inr (JObj [(''time_remaining'', JInt (py_int tr)),
                                    (''puzzles'', JObj pv),
                                    (''items'', JObj iv),
                                    (''hints_used'', JInt (hints_used state)),
                                    (''completed'', JBool (completed state)),
                                    (''success'',
                                     JBool (case success state of None \<Rightarrow> False | Some b \<Rightarrow> b))],
                              200), gs')))))"

subsection \<open>\<open>solve_puzzle\<close>\<close>

text \<open>
  \<open>all(state["puzzles"][p]["solved"] for p in required_puzzles)\<close> stops at the first
  puzzle that is not solved.
\<close>

fun all_solved :: "session \<Rightarrow> string list \<Rightarrow> py_error + bool" where
  "all_solved state [] = Inr True"
| "all_solved state (p # ps) =
     (case puzzles state p of
        None \<Rightarrow> Inl KeyError
      | Some b \<Rightarrow> if b then all_solved state ps else Inr False)"

text \<open>Lines 136 to 154: the exit door.\<close>

definition solve_door :: "config \<Rightarrow> string \<Rightarrow> session \<Rightarrow> game_states \<Rightarrow> outcome \<times> game_states" where
  "solve_door cfg session_id state gs =
     (case map_of (cfg_puzzles cfg) ''door'' of
        None \<Rightarrow> (Inl KeyError, gs)
      | Some d \<Rightarrow>
          (case requires d of
             None \<Rightarrow> (Inl KeyError, gs)
           | Some required_puzzles \<Rightarrow>
               (case all_solved state required_puzzles of
                  Inl e \<Rightarrow> (Inl e, gs)
                | Inr True \<Rightarrow>
                    (Inr (JObj [(''success'', JBool True),
                                (''message'', JStr ''Congratulations! You've escaped the room!''),
                                (''game_completed'', JBool True)], 200),
                     gs(session_id \<mapsto> state\<lparr>puzzles := (puzzles state)(''door'' \<mapsto> True),
                                               completed := True,
                                               success := Some True\<rparr>))
                | Inr False \<Rightarrow>
                    (Inr (JObj [(''success'', JBool False),
                                (''message'',
                                 JStr ''You need to solve all puzzles before opening the door.'')],
                          200), gs))))"

text \<open>
  Lines 163 to 175: the loop over the items returns at the first item of this puzzle
  that is not found yet. The session it receives already has the puzzle solved.
\<close>

fun reveal_item ::
  "(string \<times> item_def) list \<Rightarrow> string \<Rightarrow> string \<Rightarrow> session \<Rightarrow> game_states \<Rightarrow> outcome \<times> game_states" where
  "reveal_item [] puzzle_id session_id state gs =
     (Inr (JObj [(''success'', JBool True), (''message'', JStr ''Puzzle solved!'')], 200),
      gs(session_id \<mapsto> state))"
| "reveal_item ((item_id, item) # rest) puzzle_id session_id state gs =
     (if location item = puzzle_id
      then (case items state item_id of
              None \<Rightarrow> (Inl KeyError, gs(session_id \<mapsto> state))
            | Some f \<Rightarrow>
                if \<not> f
                then (Inr (JObj [(''success'', JBool True),
                                 (''message'',
                                  JStr (''Puzzle solved! You found: '' @ i_description item)),
                                 (''item_found'', JStr item_id)], 200),
                      gs(session_id \<mapsto> state\<lparr>items := (items state)(item_id \<mapsto> True)\<rparr>))
                else reveal_item rest puzzle_id session_id state gs)
      else reveal_item rest puzzle_id session_id state gs)"

text \<open>Lines 156 to 180: every other puzzle.\<close>

definition solve_other ::
  "config \<Rightarrow> string \<Rightarrow> string \<Rightarrow> json \<Rightarrow> session \<Rightarrow> game_states \<Rightarrow> outcome \<times> game_states" where
  "solve_other cfg session_id puzzle_id solution_attempt state gs =
     (case map_of (cfg_puzzles cfg) puzzle_id of
        None \<Rightarrow> (Inl KeyError, gs)
      | Some d \<Rightarrow>
          (case solution d of
             None \<Rightarrow> (Inl KeyError, gs)
           | Some correct_solution \<Rightarrow>
               (case solution_attempt of
                  JStr s \<Rightarrow>
                    if lower s = lower correct_solution
                    then reveal_item (cfg_items cfg) puzzle_id session_id
                           (state\<lparr>puzzles := (puzzles state)(puzzle_id \<mapsto> True)\<rparr>) gs
                    else (Inr (JObj [(''success'', JBool False),
                                     (''message'', JStr ''Incorrect solution. Try again.'')],
                               200), gs)
                | _ \<Rightarrow> (Inl AttributeError, gs))))"

text \<open>
  What \<open>request.json\<close> gives the handler. A body that is a JSON object is a \<open>dict\<close>; a
  body that is \<open>null\<close>, a boolean, a number, a string or an array is the Python value of
  that kind. For a request without a JSON body, or with a body that is not valid JSON,
  Flask raises an \<open>HTTPException\<close> (status 415 or 400) at the property itself.
\<close>

datatype request_json =
    Refused nat
  | Dict "string \<rightharpoonup> json"
  | PyNone
  | PyBool bool
  | PyNumber real
  | PyStr string
  | PyList "json list"

text \<open>
  Lines 132 and 133: \<open>data = request.json\<close>, then \<open>data.get("solution", "")\<close>. Only a
  \<open>dict\<close> has the method \<open>get\<close>.
\<close>

definition read_solution :: "request_json \<Rightarrow> py_error + json" where
  "read_solution data =
     (case data of
        Refused status \<Rightarrow> Inl (HTTPException status)
      | Dict d \<Rightarrow> Inr (case d ''solution'' of None \<Rightarrow> JStr [] | Some v \<Rightarrow> v)
      | _ \<Rightarrow> Inl AttributeError)"

text \<open>
  The handler. The body is read after the four guards and before the branch for the
  door, so a body that is not a JSON object fails the request for every puzzle.
\<close>

definition solve_puzzle ::
  "config \<Rightarrow> string \<Rightarrow> string \<Rightarrow> request_json \<Rightarrow> game_states \<Rightarrow> outcome \<times> game_states" where
  "solve_puzzle cfg session_id puzzle_id data gs =
     (case gs session_id of
        None \<Rightarrow> (Inr (JObj [(''error'', JStr ''Game session not found'')], 404), gs)
      | Some state \<Rightarrow>
          if puzzle_id \<notin> set (map fst (cfg_puzzles cfg))
          then (Inr (JObj [(''error'', JStr ''Puzzle not found'')], 404), gs)
          else if completed state
          then (Inr (JObj [(''error'', JStr ''Game already completed'')], 400), gs)
          else (case puzzles state puzzle_id of
                  None \<Rightarrow> (Inl KeyError, gs)
                | Some True \<Rightarrow> (Inr (JObj [(''error'', JStr ''Puzzle already solved'')], 400), gs)
                | Some False \<Rightarrow>
                    (case read_solution data of
                       Inl e \<Rightarrow> (Inl e, gs)
                     | Inr solution_attempt \<Rightarrow>
                         if puzzle_id = ''door''
                         then solve_door cfg session_id state gs
                         else solve_other cfg session_id puzzle_id solution_attempt state gs)))"

subsection \<open>\<open>get_hint\<close>\<close>

definition hints :: "(string \<times> string) list" where
  "hints = [
     (''safe'', ''Look for a 4-digit code hidden in the room. Maybe check the bookshelf?''),
     (''bookshelf'',
      ''The colors need to be arranged in a specific order. Look for a pattern elsewhere.''),
     (''computer'',
      ''The password might be written down somewhere. Have you checked all items?''),
     (''door'', ''You need to solve all other puzzles first.'')]"

definition get_hint :: "config \<Rightarrow> string \<Rightarrow> string \<Rightarrow> game_states \<Rightarrow> outcome \<times> game_states" where
  "get_hint cfg session_id puzzle_id gs =
     (case gs session_id of
        None \<Rightarrow> (Inr (JObj [(''error'', JStr ''Game session not found'')], 404), gs)
      | Some state0 \<Rightarrow>
          if puzzle_id \<notin> set (map fst (cfg_puzzles cfg))
          then (Inr (JObj [(''error'', JStr ''Puzzle not found'')], 404), gs)
          else (let state = state0\<lparr>hints_used := hints_used state0 + 1\<rparr>
                in (Inr (JObj [(''hint'',
                                JStr (case map_of hints puzzle_id of
                                        None \<Rightarrow> ''No hint available for this puzzle.''
                                      | Some h \<Rightarrow> h)),
                               (''hints_used'', JInt (hints_used state))], 200),
                    gs(session_id \<mapsto> state))))"

subsection \<open>Requests and sequences of requests\<close>

text \<open>
  The route table of the application: each request is answered by one handler. A
  sequence of requests is served one after the other on the dictionary of sessions.
\<close>

datatype request =
    NewGame real real
  | is_GetView: GetView real string
  | AttemptSolve string string request_json
  | UseHint string string

fun serve :: "config \<Rightarrow> request \<Rightarrow> game_states \<Rightarrow> outcome \<times> game_states" where
  "serve cfg (NewGame t_id t_start) gs = new_game cfg t_id t_start gs"
| "serve cfg (GetView now session_id) gs = get_game_state cfg now session_id gs"
| "serve cfg (AttemptSolve session_id puzzle_id data) gs = solve_puzzle cfg session_id puzzle_id data gs"
| "serve cfg (UseHint session_id puzzle_id) gs = get_hint cfg session_id puzzle_id gs"

fun serve_all :: "config \<Rightarrow> request list \<Rightarrow> game_states \<Rightarrow> game_states" where
  "serve_all cfg [] gs = gs"
| "serve_all cfg (r # rs) gs = serve_all cfg rs (snd (serve cfg r gs))"

text \<open>The same hint requested \<open>n\<close> times in a row.\<close>

definition hint_calls :: "config \<Rightarrow> string \<Rightarrow> string \<Rightarrow> nat \<Rightarrow> game_states \<Rightarrow> game_states" where
  "hint_calls cfg session_id puzzle_id n gs =
     ((\<lambda>g. snd (get_hint cfg session_id puzzle_id g)) ^^ n) gs"

text \<open>
  A session holds every key of the configuration, as every session made by
  \<open>create_new_game_state\<close> does: no lookup of a handler raises \<open>KeyError\<close> on it.
\<close>

definition wf_session :: "config \<Rightarrow> session \<Rightarrow> bool" where
  "wf_session cfg state \<longleftrightarrow>
     (\<forall>k \<in> set (map fst (cfg_puzzles cfg)). puzzles state k \<noteq> None) \<and>
     (\<forall>k \<in> set (map fst (cfg_items cfg)). items state k \<noteq> None)"

subsection \<open>Example sessions\<close>

text \<open>
  A fresh session made at time 100, and the same session after the safe was opened,
  after the three puzzles with a solution were solved, and after it was read past its
  time limit. Each stands alone in a dictionary of sessions under the id \<open>100\<close>.
\<close>

definition fresh_session :: session where
  "fresh_session = create_new_game_state GAME_CONFIG 100"

definition safe_solved_session :: session where
  "safe_solved_session = \<lparr>
     start_time = 100,
     puzzles = [''safe'' \<mapsto> True, ''bookshelf'' \<mapsto> False, ''computer'' \<mapsto> False,
                ''door'' \<mapsto> False],
     items = [''key'' \<mapsto> True, ''note'' \<mapsto> False, ''usb_drive'' \<mapsto> False],
     hints_used = 0,
     completed = False,
     success = None\<rparr>"

definition three_solved_session :: session where
  "three_solved_session = \<lparr>
     start_time = 100,
     puzzles = [''safe'' \<mapsto> True, ''bookshelf'' \<mapsto> True, ''computer'' \<mapsto> True,
                ''door'' \<mapsto> False],
     items = [''key'' \<mapsto> True, ''note'' \<mapsto> True, ''usb_drive'' \<mapsto> True],
     hints_used = 0,
     completed = False,
     success = None\<rparr>"

definition timed_out_session :: session where
  "timed_out_session = \<lparr>
     start_time = 100,
     puzzles = [''safe'' \<mapsto> False, ''bookshelf'' \<mapsto> False, ''computer'' \<mapsto> False,
                ''door'' \<mapsto> False],
     items = [''key'' \<mapsto> False, ''note'' \<mapsto> False, ''usb_drive'' \<mapsto> False],
     hints_used = 0,
     completed = True,
     success = Some False\<rparr>"

definition example_states :: game_states where
  "example_states = [''100'' \<mapsto> fresh_session]"

definition safe_solved_states :: game_states where
  "safe_solved_states = [''100'' \<mapsto> safe_solved_session]"

definition three_solved_states :: game_states where
  "three_solved_states = [''100'' \<mapsto> three_solved_session]"

definition timed_out_states :: game_states where
  "timed_out_states = [''100'' \<mapsto> timed_out_session]"

section \<open>Properties\<close>

subsection \<open>Evaluating the configuration and the examples\<close>

lemma GAME_CONFIG_puzzle_ids:
  "map fst (cfg_puzzles GAME_CONFIG) = [''safe'', ''bookshelf'', ''computer'', ''door'']"
  by (simp add: GAME_CONFIG_def)

lemma example_states_100:
  "example_states ''100'' = Some fresh_session"
  "example_states ''7'' = None"
  "safe_solved_states ''100'' = Some safe_solved_session"
  "three_solved_states ''100'' = Some three_solved_session"
  "timed_out_states ''100'' = Some timed_out_session"
  by (simp_all add: example_states_def safe_solved_states_def three_solved_states_def
      timed_out_states_def)

lemma lower_solutions:
  "lower ''1234'' = ''1234''"
  "lower ''red,blue,green'' = ''red,blue,green''"
  "lower ''password'' = ''password''"
  "lower ''PASSWORD'' = ''password''"
  "lower ''Red,Blue,Green'' = ''red,blue,green''"
  "lower [] = []"
  by code_simp+

lemma GAME_CONFIG_fields:
  "time_limit GAME_CONFIG = 1800"
  "cfg_puzzles GAME_CONFIG = [
       (''safe'', \<lparr>p_solved = False, solution = Some ''1234'', requires = None,
          p_description = ''A locked safe with a 4-digit combination.''\<rparr>),
       (''bookshelf'', \<lparr>p_solved = False, solution = Some ''red,blue,green'', requires = None,
          p_description = ''A bookshelf with colored books that need to be arranged.''\<rparr>),
       (''computer'', \<lparr>p_solved = False, solution = Some ''password'', requires = None,
          p_description = ''A locked computer that needs a password.''\<rparr>),
       (''door'', \<lparr>p_solved = False, solution = None,
          requires = Some [''safe'', ''bookshelf'', ''computer''],
          p_description = ''The exit door. Requires all other puzzles to be solved.''\<rparr>)]"
  "cfg_items GAME_CONFIG = [
       (''key'', \<lparr>i_found = False, location = ''safe'',
          i_description = ''A small golden key.''\<rparr>),
       (''note'', \<lparr>i_found = False, location = ''bookshelf'',
          i_description = ''A handwritten note with a clue.''\<rparr>),
       (''usb_drive'', \<lparr>i_found = False, location = ''computer'',
          i_description = ''A USB drive with important data.''\<rparr>)]"
  by (simp_all add: GAME_CONFIG_def)

lemma fresh_fields:
  "puzzles (create_new_game_state GAME_CONFIG t) =
     [''door'' \<mapsto> False, ''computer'' \<mapsto> False, ''bookshelf'' \<mapsto> False, ''safe'' \<mapsto> False]"
  "items (create_new_game_state GAME_CONFIG t) =
     [''usb_drive'' \<mapsto> False, ''note'' \<mapsto> False, ''key'' \<mapsto> False]"
  "completed (create_new_game_state cfg t) = False"
  "success (create_new_game_state cfg t) = None"
  "hints_used (create_new_game_state cfg t) = 0"
  "start_time (create_new_game_state cfg t) = t"
  by (simp_all add: create_new_game_state_def GAME_CONFIG_fields)

lemma fresh_session_fields:
  "start_time fresh_session = 100"
  "puzzles fresh_session ''safe'' = Some False"
  "puzzles fresh_session ''bookshelf'' = Some False"
  "puzzles fresh_session ''computer'' = Some False"
  "puzzles fresh_session ''door'' = Some False"
  "items fresh_session ''key'' = Some False"
  "items fresh_session ''note'' = Some False"
  "items fresh_session ''usb_drive'' = Some False"
  "hints_used fresh_session = 0"
  "completed fresh_session = False"
  "success fresh_session = None"
  by (simp_all add: fresh_session_def create_new_game_state_def GAME_CONFIG_fields)

lemma safe_solved_session_fields:
  "start_time safe_solved_session = 100"
  "puzzles safe_solved_session ''safe'' = Some True"
  "puzzles safe_solved_session ''bookshelf'' = Some False"
  "puzzles safe_solved_session ''computer'' = Some False"
  "puzzles safe_solved_session ''door'' = Some False"
  "items safe_solved_session ''key'' = Some True"
  "items safe_solved_session ''note'' = Some False"
  "items safe_solved_session ''usb_drive'' = Some False"
  "hints_used safe_solved_session = 0"
  "completed safe_solved_session = False"
  "success safe_solved_session = None"
  by (simp_all add: safe_solved_session_def)

lemma three_solved_session_fields:
  "start_time three_solved_session = 100"
  "puzzles three_solved_session ''safe'' = Some True"
  "puzzles three_solved_session ''bookshelf'' = Some True"
  "puzzles three_solved_session ''computer'' = Some True"
  "puzzles three_solved_session ''door'' = Some False"
  "items three_solved_session ''key'' = Some True"
  "items three_solved_session ''note'' = Some True"
  "items three_solved_session ''usb_drive'' = Some True"
  "hints_used three_solved_session = 0"
  "completed three_solved_session = False"
  "success three_solved_session = None"
  by (simp_all add: three_solved_session_def)

lemma timed_out_session_fields:
  "start_time timed_out_session = 100"
  "puzzles timed_out_session ''safe'' = Some False"
  "puzzles timed_out_session ''bookshelf'' = Some False"
  "puzzles timed_out_session ''computer'' = Some False"
  "puzzles timed_out_session ''door'' = Some False"
  "items timed_out_session ''key'' = Some False"
  "items timed_out_session ''note'' = Some False"
  "items timed_out_session ''usb_drive'' = Some False"
  "hints_used timed_out_session = 0"
  "completed timed_out_session = True"
  "success timed_out_session = Some False"
  by (simp_all add: timed_out_session_def)

lemma wf_session_GAME_CONFIG:
  "wf_session GAME_CONFIG st \<longleftrightarrow>
     puzzles st ''safe'' \<noteq> None \<and> puzzles st ''bookshelf'' \<noteq> None \<and>
     puzzles st ''computer'' \<noteq> None \<and> puzzles st ''door'' \<noteq> None \<and>
     items st ''key'' \<noteq> None \<and> items st ''note'' \<noteq> None \<and> items st ''usb_drive'' \<noteq> None"
  by (simp add: wf_session_def GAME_CONFIG_fields)

lemma wf_session_examples:
  "wf_session GAME_CONFIG fresh_session"
  "wf_session GAME_CONFIG safe_solved_session"
  "wf_session GAME_CONFIG three_solved_session"
  "wf_session GAME_CONFIG timed_out_session"
  by (simp_all add: wf_session_GAME_CONFIG fresh_session_fields safe_solved_session_fields
      three_solved_session_fields timed_out_session_fields)

text \<open>The example sessions are what the handlers make of the fresh one.\<close>

lemma fresh_session_eq:
  "fresh_session = \<lparr>
     start_time = 100,
     puzzles = [''safe'' \<mapsto> False, ''bookshelf'' \<mapsto> False, ''computer'' \<mapsto> False,
                ''door'' \<mapsto> False],
     items = [''key'' \<mapsto> False, ''note'' \<mapsto> False, ''usb_drive'' \<mapsto> False],
     hints_used = 0,
     completed = False,
     success = None\<rparr>"
  by (simp add: fresh_session_def create_new_game_state_def GAME_CONFIG_fields fun_eq_iff)

lemma examples_reached:
  "snd (solve_puzzle GAME_CONFIG ''100'' ''safe'' (Dict [''solution'' \<mapsto> JStr ''1234'']) example_states) =
     safe_solved_states"
  "serve_all GAME_CONFIG
     [AttemptSolve ''100'' ''safe'' (Dict [''solution'' \<mapsto> JStr ''1234'']),
      AttemptSolve ''100'' ''bookshelf'' (Dict [''solution'' \<mapsto> JStr ''Red,Blue,Green'']),
      AttemptSolve ''100'' ''computer'' (Dict [''solution'' \<mapsto> JStr ''PASSWORD''])]
     example_states = three_solved_states"
  "snd (get_game_state GAME_CONFIG 2000 ''100'' example_states) = timed_out_states"
  by (simp_all add: solve_puzzle_def read_solution_def solve_other_def get_game_state_def time_remaining_def
      example_states_def safe_solved_states_def three_solved_states_def timed_out_states_def
      fresh_session_eq safe_solved_session_def three_solved_session_def timed_out_session_def
      GAME_CONFIG_fields lower_solutions fun_eq_iff)

subsection \<open>The lookups of a session that holds every key\<close>

lemma puzzles_view_wf:
  assumes "\<forall>k \<in> set (map fst ps). puzzles st k \<noteq> None"
  shows "puzzles_view ps st =
    Inr (map (\<lambda>(k, d). (k, JObj [(''solved'', JBool (the (puzzles st k))),
                                    (''description'', JStr (p_description d))])) ps)"
  using assms by (induction ps) auto

lemma items_view_wf:
  assumes "\<forall>k \<in> set (map fst its). items st k \<noteq> None"
  shows "items_view its st =
    Inr (map (\<lambda>(k, d). (k, JObj [(''found'', JBool (the (items st k))),
                                    (''description'',
                                     JStr (if the (items st k) then i_description d else ''???''))])) its)"
  using assms by (induction its) auto

lemma all_solved_wf:
  assumes "\<forall>p \<in> set req. puzzles st p \<noteq> None"
  shows "all_solved st req = Inr (\<forall>p \<in> set req. puzzles st p = Some True)"
  using assms by (induction req) auto

lemma reveal_item_wf:
  assumes "\<forall>k \<in> set (map fst its). items st k \<noteq> None"
  shows "reveal_item its pid sid st gs =
    (case find (\<lambda>(iid, it). location it = pid \<and> items st iid = Some False) its of
       None \<Rightarrow>
         (Inr (JObj [(''success'', JBool True), (''message'', JStr ''Puzzle solved!'')], 200),
          gs(sid \<mapsto> st))
     | Some (iid, it) \<Rightarrow>
         (Inr (JObj [(''success'', JBool True),
                     (''message'', JStr (''Puzzle solved! You found: '' @ i_description it)),
                     (''item_found'', JStr iid)], 200),
          gs(sid \<mapsto> st\<lparr>items := (items st)(iid \<mapsto> True)\<rparr>)))"
proof -
  let ?R = "\<lambda>its. (case find (\<lambda>(iid, it). location it = pid \<and> items st iid = Some False) its of
       None \<Rightarrow>
         (Inr (JObj [(''success'', JBool True), (''message'', JStr ''Puzzle solved!'')], 200),
          gs(sid \<mapsto> st))
     | Some (iid, it) \<Rightarrow>
         (Inr (JObj [(''success'', JBool True),
                     (''message'', JStr (''Puzzle solved! You found: '' @ i_description it)),
                     (''item_found'', JStr iid)], 200),
          gs(sid \<mapsto> st\<lparr>items := (items st)(iid \<mapsto> True)\<rparr>)))"
  from assms show "reveal_item its pid sid st gs = ?R its"
  proof (induction its)
    case Nil
    show ?case by simp
  next
    case (Cons x its)
    obtain a b where x: "x = (a, b)" by (cases x)
    from Cons.prems obtain f where f: "items st a = Some f" by (auto simp: x)
    from Cons.prems have "\<forall>k \<in> set (map fst its). items st k \<noteq> None" by simp
    then have IH: "reveal_item its pid sid st gs = ?R its" by (rule Cons.IH)
    show ?case by (cases f) (simp_all add: x f IH)
  qed
qed

subsection \<open>Hints\<close>

lemma get_hint_valid:
  assumes "gs sid = Some st" and "pid \<in> set (map fst (cfg_puzzles cfg))"
  shows "get_hint cfg sid pid gs =
    (Inr (JObj [(''hint'', JStr (case map_of hints pid of
                                   None \<Rightarrow> ''No hint available for this puzzle.''
                                 | Some h \<Rightarrow> h)),
                (''hints_used'', JInt (hints_used st + 1))], 200),
     gs(sid \<mapsto> st\<lparr>hints_used := hints_used st + 1\<rparr>))"
  using assms by (simp add: get_hint_def)

lemma hint_calls_eq:
  assumes "gs sid = Some st" and "pid \<in> set (map fst (cfg_puzzles cfg))"
  shows "hint_calls cfg sid pid n gs = gs(sid \<mapsto> st\<lparr>hints_used := hints_used st + int n\<rparr>)"
proof (induction n)
  case 0
  have "gs(sid \<mapsto> st) = gs" using assms(1) by (rule map_upd_triv)
  then show ?case by (simp add: hint_calls_def)
next
  case (Suc n)
  let ?g = "gs(sid \<mapsto> st\<lparr>hints_used := hints_used st + int n\<rparr>)"
  have "hint_calls cfg sid pid (Suc n) gs = snd (get_hint cfg sid pid (hint_calls cfg sid pid n gs))"
    by (simp add: hint_calls_def)
  also have "\<dots> = snd (get_hint cfg sid pid ?g)" by (simp only: Suc.IH)
  also have "\<dots> = gs(sid \<mapsto> st\<lparr>hints_used := hints_used st + int (Suc n)\<rparr>)"
    using get_hint_valid [of ?g sid "st\<lparr>hints_used := hints_used st + int n\<rparr>" pid cfg] assms(2)
    by (simp add: ac_simps)
  finally show ?case .
qed

text \<open>
  Claim C7. \<open>get_hint\<close> answers an unknown session id or an unknown puzzle id with 404
  and leaves every session as it was, so no counter moves. For a known session and a
  known puzzle it adds exactly 1 to \<open>hints_used\<close>, answers with the hint of the table for
  that puzzle (or the fallback text when the table has none) and the new count, and
  changes nothing else of the session; after \<open>n\<close> calls in a row the counter has grown by
  \<open>n\<close>, for every \<open>n\<close>. Nothing in this depends on \<open>completed\<close>.
\<close>

theorem get_hint_counts:
  "(gs sid = None \<longrightarrow>
      get_hint cfg sid pid gs =
        (Inr (JObj [(''error'', JStr ''Game session not found'')], 404), gs)) \<and>
   (gs sid = Some st \<and> pid \<notin> set (map fst (cfg_puzzles cfg)) \<longrightarrow>
      get_hint cfg sid pid gs =
        (Inr (JObj [(''error'', JStr ''Puzzle not found'')], 404), gs)) \<and>
   (gs sid = Some st \<and> pid \<in> set (map fst (cfg_puzzles cfg)) \<longrightarrow>
      get_hint cfg sid pid gs =
        (Inr (JObj [(''hint'', JStr (case map_of hints pid of
                                       None \<Rightarrow> ''No hint available for this puzzle.''
                                     | Some h \<Rightarrow> h)),
                    (''hints_used'', JInt (hints_used st + 1))], 200),
         gs(sid \<mapsto> st\<lparr>hints_used := hints_used st + 1\<rparr>)) \<and>
      hint_calls cfg sid pid n gs = gs(sid \<mapsto> st\<lparr>hints_used := hints_used st + int n\<rparr>))"
proof (intro conjI impI)
  assume "gs sid = None"
  then show "get_hint cfg sid pid gs =
      (Inr (JObj [(''error'', JStr ''Game session not found'')], 404), gs)"
    by (simp add: get_hint_def)
next
  assume "gs sid = Some st \<and> pid \<notin> set (map fst (cfg_puzzles cfg))"
  then show "get_hint cfg sid pid gs =
      (Inr (JObj [(''error'', JStr ''Puzzle not found'')], 404), gs)"
    by (simp add: get_hint_def)
next
  assume a: "gs sid = Some st \<and> pid \<in> set (map fst (cfg_puzzles cfg))"
  then show "get_hint cfg sid pid gs =
      (Inr (JObj [(''hint'', JStr (case map_of hints pid of
                                     None \<Rightarrow> ''No hint available for this puzzle.''
                                   | Some h \<Rightarrow> h)),
                  (''hints_used'', JInt (hints_used st + 1))], 200),
       gs(sid \<mapsto> st\<lparr>hints_used := hints_used st + 1\<rparr>))"
    by (simp add: get_hint_valid)
  from a show "hint_calls cfg sid pid n gs = gs(sid \<mapsto> st\<lparr>hints_used := hints_used st + int n\<rparr>)"
    by (simp add: hint_calls_eq)
qed

theorem get_hint_counts_witness:
  "get_hint GAME_CONFIG ''7'' ''safe'' example_states =
     (Inr (JObj [(''error'', JStr ''Game session not found'')], 404), example_states) \<and>
   get_hint GAME_CONFIG ''100'' ''window'' example_states =
     (Inr (JObj [(''error'', JStr ''Puzzle not found'')], 404), example_states) \<and>
   get_hint GAME_CONFIG ''100'' ''door'' example_states =
     (Inr (JObj [(''hint'', JStr ''You need to solve all other puzzles first.''),
                 (''hints_used'', JInt 1)], 200),
      example_states(''100'' \<mapsto> fresh_session\<lparr>hints_used := 1\<rparr>)) \<and>
   hint_calls GAME_CONFIG ''100'' ''door'' 3 example_states =
     example_states(''100'' \<mapsto> fresh_session\<lparr>hints_used := 3\<rparr>)"
  using get_hint_counts [where gs = example_states and sid = "''7''" and cfg = GAME_CONFIG
      and pid = "''safe''" and n = 0]
    get_hint_counts [where gs = example_states and sid = "''100''" and cfg = GAME_CONFIG
      and pid = "''window''" and st = fresh_session and n = 0]
    get_hint_counts [where gs = example_states and sid = "''100''" and cfg = GAME_CONFIG
      and pid = "''door''" and st = fresh_session and n = 3]
  by (simp add: example_states_100 GAME_CONFIG_puzzle_ids hints_def fresh_session_fields)

subsection \<open>Session ids\<close>

lemma digit_chars:
  "digit_char 0 = CHR ''0''" "digit_char 1 = CHR ''1''" "digit_char (Suc 0) = CHR ''1''"
  "digit_char 2 = CHR ''2''" "digit_char 3 = CHR ''3''" "digit_char 4 = CHR ''4''"
  "digit_char 5 = CHR ''5''" "digit_char 6 = CHR ''6''" "digit_char 7 = CHR ''7''" "digit_char 8 = CHR ''8''"
  "digit_char 9 = CHR ''9''"
  by code_simp+

lemma str_int_1700000000: "str_int 1700000000 = ''1700000000''"
  by (simp add: str_int_def str_nat.simps digit_chars)

lemma py_int_same_second:
  "py_int (6800000001 / 4) = 1700000000"
  "py_int (6800000003 / 4) = 1700000000"
  by (simp_all add: py_int_def)

text \<open>
  Claim C8. Two \<open>new_game\<close> requests at the clock readings 1700000000.25 and
  1700000000.75, within one second, are both answered with the session id
  \<open>1700000000\<close>, and the second request replaces the record stored by the first: after
  it the record under that id is a fresh one, started at the later reading.
\<close>

theorem new_game_same_second_same_id:
  "fst (new_game GAME_CONFIG (6800000001 / 4) (6800000001 / 4) Map.empty) =
     Inr (JObj [(''session_id'', JStr ''1700000000''),
                (''message'', JStr ''New game started''),
                (''time_limit'', JInt 1800)], 200) \<and>
   fst (new_game GAME_CONFIG (6800000003 / 4) (6800000003 / 4)
          (snd (new_game GAME_CONFIG (6800000001 / 4) (6800000001 / 4) Map.empty))) =
     Inr (JObj [(''session_id'', JStr ''1700000000''),
                (''message'', JStr ''New game started''),
                (''time_limit'', JInt 1800)], 200) \<and>
   snd (new_game GAME_CONFIG (6800000001 / 4) (6800000001 / 4) Map.empty) ''1700000000'' =
     Some (create_new_game_state GAME_CONFIG (6800000001 / 4)) \<and>
   snd (new_game GAME_CONFIG (6800000003 / 4) (6800000003 / 4)
          (snd (new_game GAME_CONFIG (6800000001 / 4) (6800000001 / 4) Map.empty))) ''1700000000'' =
     Some (create_new_game_state GAME_CONFIG (6800000003 / 4))"
  by (simp add: new_game_def Let_def py_int_same_second str_int_1700000000 GAME_CONFIG_fields)

subsection \<open>Flags over sequences of requests\<close>

text \<open>
  Claim C4. The flags do not survive every sequence of requests: a session is created at
  1700000000.25, its safe is solved, and a second \<open>new_game\<close> request at 1700000000.75
  gets the same session id and stores a fresh record under it, so the solved flag of the
  safe of that session is true after the second request and false after the third.
\<close>

theorem new_game_resets_solved_flag:
  "map_option (\<lambda>st. puzzles st ''safe'')
     (serve_all GAME_CONFIG
        [NewGame (6800000001 / 4) (6800000001 / 4),
         AttemptSolve ''1700000000'' ''safe'' (Dict [''solution'' \<mapsto> JStr ''1234''])]
        Map.empty ''1700000000'') = Some (Some True) \<and>
   map_option (\<lambda>st. puzzles st ''safe'')
     (serve_all GAME_CONFIG
        [NewGame (6800000001 / 4) (6800000001 / 4),
         AttemptSolve ''1700000000'' ''safe'' (Dict [''solution'' \<mapsto> JStr ''1234'']),
         NewGame (6800000003 / 4) (6800000003 / 4)]
        Map.empty ''1700000000'') = Some (Some False)"
  by (simp add: new_game_def Let_def py_int_same_second str_int_1700000000 GAME_CONFIG_fields
      solve_puzzle_def read_solution_def solve_other_def fresh_fields lower_solutions)

subsection \<open>The exit door\<close>

text \<open>
  Claim C1. In a session that is not completed and whose door is not solved, a solve
  request for the puzzle \<open>door\<close> whose body is a JSON object, as the interface sends the
  submitted text, gives the same outcome whatever the object holds (a solution of any
  kind, or none), and succeeds exactly when safe, bookshelf and computer are all
  solved: then the door is marked solved, the session is completed with success, and
  the answer is the victory message; otherwise the answer is a 200 response with
  \<open>success\<close> false and the sessions are left as they were. A body that is not a JSON
  object carries no submitted text: the request fails where the body is read
  (\<open>solve_puzzle_unreadable\<close>).
\<close>

theorem solve_door_iff_prerequisites:
  assumes "gs sid = Some st" and "\<not> completed st" and "puzzles st ''door'' = Some False"
    and "wf_session GAME_CONFIG st"
  shows "solve_puzzle GAME_CONFIG sid ''door'' (Dict data) gs =
    (if puzzles st ''safe'' = Some True \<and> puzzles st ''bookshelf'' = Some True \<and>
        puzzles st ''computer'' = Some True
     then (Inr (JObj [(''success'', JBool True),
                      (''message'', JStr ''Congratulations! You've escaped the room!''),
                      (''game_completed'', JBool True)], 200),
           gs(sid \<mapsto> st\<lparr>puzzles := (puzzles st)(''door'' \<mapsto> True),
                           completed := True, success := Some True\<rparr>))
     else (Inr (JObj [(''success'', JBool False),
                      (''message'',
                       JStr ''You need to solve all puzzles before opening the door.'')], 200),
           gs))"
proof -
  have keys: "\<forall>p \<in> set [''safe'', ''bookshelf'', ''computer'']. puzzles st p \<noteq> None"
    using assms(4) by (simp add: wf_session_GAME_CONFIG)
  have "all_solved st [''safe'', ''bookshelf'', ''computer''] =
      Inr (\<forall>p \<in> set [''safe'', ''bookshelf'', ''computer'']. puzzles st p = Some True)"
    using keys by (rule all_solved_wf)
  then have req: "all_solved st [''safe'', ''bookshelf'', ''computer''] =
      Inr (puzzles st ''safe'' = Some True \<and> puzzles st ''bookshelf'' = Some True \<and>
           puzzles st ''computer'' = Some True)"
    by simp
  have "solve_puzzle GAME_CONFIG sid ''door'' (Dict data) gs = solve_door GAME_CONFIG sid st gs"
    using assms(1-3) by (simp add: solve_puzzle_def read_solution_def GAME_CONFIG_fields)
  then show ?thesis
    by (simp add: solve_door_def GAME_CONFIG_fields req bool.case_eq_if del: all_solved.simps)
qed

theorem solve_door_iff_prerequisites_witness:
  "solve_puzzle GAME_CONFIG ''100'' ''door'' (Dict [''solution'' \<mapsto> JStr ''open sesame'']) example_states =
     (Inr (JObj [(''success'', JBool False),
                 (''message'',
                  JStr ''You need to solve all puzzles before opening the door.'')], 200),
      example_states) \<and>
   solve_puzzle GAME_CONFIG ''100'' ''door'' (Dict Map.empty) three_solved_states =
     (Inr (JObj [(''success'', JBool True),
                 (''message'', JStr ''Congratulations! You've escaped the room!''),
                 (''game_completed'', JBool True)], 200),
      three_solved_states(''100'' \<mapsto>
        three_solved_session\<lparr>puzzles := (puzzles three_solved_session)(''door'' \<mapsto> True),
                               completed := True, success := Some True\<rparr>))"
  using solve_door_iff_prerequisites [where gs = example_states and sid = "''100''"
      and st = fresh_session and data = "[''solution'' \<mapsto> JStr ''open sesame'']"]
    solve_door_iff_prerequisites [where gs = three_solved_states and sid = "''100''"
      and st = three_solved_session and data = Map.empty]
  by (simp add: example_states_100 wf_session_examples fresh_session_fields
      three_solved_session_fields)

subsection \<open>Puzzles with a solution\<close>

lemma solve_puzzle_other:
  assumes "gs sid = Some st" and "\<not> completed st" and "puzzles st pid = Some False"
    and "pid \<noteq> ''door''" and "map_of (cfg_puzzles cfg) pid = Some d"
    and "solution d = Some sol" and "data ''solution'' = Some (JStr s)"
  shows "solve_puzzle cfg sid pid (Dict data) gs =
    (if lower s = lower sol
     then reveal_item (cfg_items cfg) pid sid (st\<lparr>puzzles := (puzzles st)(pid \<mapsto> True)\<rparr>) gs
     else (Inr (JObj [(''success'', JBool False),
                      (''message'', JStr ''Incorrect solution. Try again.'')], 200), gs))"
proof -
  from assms(5) have "(pid, d) \<in> set (cfg_puzzles cfg)" by (rule map_of_SomeD)
  then have "pid \<in> set (map fst (cfg_puzzles cfg))" by force
  then show ?thesis
    using assms by (simp add: solve_puzzle_def read_solution_def solve_other_def)
qed

lemma reveal_item_sessions:
  "\<exists>st'. snd (reveal_item its pid sid st gs) = gs(sid \<mapsto> st') \<and>
      puzzles st' = puzzles st \<and> completed st' = completed st \<and> success st' = success st \<and>
      hints_used st' = hints_used st \<and> start_time st' = start_time st \<and>
      (\<forall>k. items st k = Some True \<longrightarrow> items st' k = Some True) \<and>
      dom (items st') = dom (items st)"
proof (induction its)
  case Nil
  show ?case by (intro exI [of _ st]) simp
next
  case (Cons x its)
  obtain a b where x: "x = (a, b)" by (cases x)
  show ?case
  proof (cases "location b = pid")
    case False
    then show ?thesis using Cons.IH by (simp add: x)
  next
    case True
    show ?thesis
    proof (cases "items st a")
      case None
      then show ?thesis using True by (intro exI [of _ st]) (simp add: x)
    next
      case (Some f)
      show ?thesis
      proof (cases f)
        case True
        then show ?thesis using Cons.IH Some \<open>location b = pid\<close> by (simp add: x)
      next
        case False
        then show ?thesis using Some \<open>location b = pid\<close>
          by (intro exI [of _ "st\<lparr>items := (items st)(a \<mapsto> True)\<rparr>"]) (auto simp: x split: if_splits)
      qed
    qed
  qed
qed




subsection \<open>What a solve request does to the sessions\<close>

lemma solve_door_sessions:
  "snd (solve_door cfg sid st gs) = gs \<or>
   snd (solve_door cfg sid st gs) =
     gs(sid \<mapsto> st\<lparr>puzzles := (puzzles st)(''door'' \<mapsto> True),
                     completed := True, success := Some True\<rparr>)"
  by (simp add: solve_door_def split: option.split sum.split bool.split)

lemma solve_other_sessions:
  "snd (solve_other cfg sid pid attempt st gs) = gs \<or>
   (\<exists>st'. snd (solve_other cfg sid pid attempt st gs) = gs(sid \<mapsto> st') \<and>
      puzzles st' = (puzzles st)(pid \<mapsto> True) \<and> completed st' = completed st \<and>
      success st' = success st \<and> hints_used st' = hints_used st \<and>
      start_time st' = start_time st \<and>
      (\<forall>k. items st k = Some True \<longrightarrow> items st' k = Some True) \<and>
      dom (items st') = dom (items st))"
proof -
  let ?st = "st\<lparr>puzzles := (puzzles st)(pid \<mapsto> True)\<rparr>"
  have "\<exists>st'. snd (reveal_item (cfg_items cfg) pid sid ?st gs) = gs(sid \<mapsto> st') \<and>
      puzzles st' = (puzzles st)(pid \<mapsto> True) \<and> completed st' = completed st \<and>
      success st' = success st \<and> hints_used st' = hints_used st \<and>
      start_time st' = start_time st \<and>
      (\<forall>k. items st k = Some True \<longrightarrow> items st' k = Some True) \<and>
      dom (items st') = dom (items st)"
    using reveal_item_sessions [of "cfg_items cfg" pid sid ?st gs] by simp
  then show ?thesis
    by (simp add: solve_other_def split: option.split json.split)
qed

lemma solve_puzzle_sessions:
  "snd (solve_puzzle cfg sid pid data gs) = gs \<or>
   (\<exists>st st'. gs sid = Some st \<and> \<not> completed st \<and> puzzles st pid = Some False \<and>
      snd (solve_puzzle cfg sid pid data gs) = gs(sid \<mapsto> st') \<and>
      (st' = st\<lparr>puzzles := (puzzles st)(pid \<mapsto> True), completed := True, success := Some True\<rparr> \<or>
       puzzles st' = (puzzles st)(pid \<mapsto> True) \<and> completed st' = completed st \<and>
       success st' = success st \<and> hints_used st' = hints_used st \<and>
       start_time st' = start_time st \<and>
       (\<forall>k. items st k = Some True \<longrightarrow> items st' k = Some True) \<and>
       dom (items st') = dom (items st)))"
proof (cases "gs sid")
  case None
  then show ?thesis by (simp add: solve_puzzle_def)
next
  case (Some st)
  show ?thesis
  proof (cases "pid \<in> set (map fst (cfg_puzzles cfg)) \<and> \<not> completed st \<and> puzzles st pid = Some False")
    case False
    then have "snd (solve_puzzle cfg sid pid data gs) = gs"
      using Some by (auto simp: solve_puzzle_def split: option.split bool.split)
    then show ?thesis ..
  next
    case True
    show ?thesis
    proof (cases "read_solution data")
      case (Inl e)
      then have "snd (solve_puzzle cfg sid pid data gs) = gs"
        using Some True by (simp add: solve_puzzle_def)
      then show ?thesis ..
    next
      case (Inr attempt)
      show ?thesis
      proof (cases "pid = ''door''")
        case door: True
        have "solve_puzzle cfg sid pid data gs = solve_door cfg sid st gs"
          using Some True door Inr by (simp add: solve_puzzle_def)
        then show ?thesis
          using solve_door_sessions [of cfg sid st gs] Some True door by auto
      next
        case other: False
        have "solve_puzzle cfg sid pid data gs = solve_other cfg sid pid attempt st gs"
          using Some True other Inr by (simp add: solve_puzzle_def)
        then show ?thesis
          using solve_other_sessions [of cfg sid pid attempt st gs] Some True by auto
      qed
    qed
  qed
qed

text \<open>
  A body that is not a JSON object fails the request once the four guards are passed,
  for the door as for every other puzzle, and the sessions stay as they were.
\<close>

lemma solve_puzzle_unreadable:
  assumes "gs sid = Some st" and "pid \<in> set (map fst (cfg_puzzles cfg))"
    and "\<not> completed st" and "puzzles st pid = Some False"
  shows "solve_puzzle cfg sid pid (Refused status) gs = (Inl (HTTPException status), gs)"
    and "solve_puzzle cfg sid pid PyNone gs = (Inl AttributeError, gs)"
    and "solve_puzzle cfg sid pid (PyBool b) gs = (Inl AttributeError, gs)"
    and "solve_puzzle cfg sid pid (PyNumber x) gs = (Inl AttributeError, gs)"
    and "solve_puzzle cfg sid pid (PyStr t) gs = (Inl AttributeError, gs)"
    and "solve_puzzle cfg sid pid (PyList vs) gs = (Inl AttributeError, gs)"
  using assms by (simp_all add: solve_puzzle_def read_solution_def)

subsection \<open>Flags and keys under requests\<close>

lemma get_game_state_sessions:
  "snd (get_game_state cfg now sid gs) = gs \<or>
   (\<exists>st. gs sid = Some st \<and> \<not> completed st \<and> time_remaining cfg now st \<le> 0 \<and>
      snd (get_game_state cfg now sid gs) = gs(sid \<mapsto> st\<lparr>completed := True, success := Some False\<rparr>))"
proof (cases "gs sid")
  case None
  then show ?thesis by (simp add: get_game_state_def)
next
  case (Some st)
  then have same: "gs(sid \<mapsto> st) = gs" by (rule map_upd_triv)
  show ?thesis
    using Some same by (simp add: get_game_state_def Let_def split: sum.split)
qed

lemma get_hint_sessions:
  "snd (get_hint cfg sid pid gs) = gs \<or>
   (\<exists>st. gs sid = Some st \<and>
      snd (get_hint cfg sid pid gs) = gs(sid \<mapsto> st\<lparr>hints_used := hints_used st + 1\<rparr>))"
  by (simp add: get_hint_def split: option.split)

text \<open>
  Apart from a \<open>new_game\<close> request that is given the id of the session, no request clears
  the completed flag or a solved flag of a session, and none removes a key.
\<close>

lemma serve_keeps_flags:
  assumes "gs sid = Some st" and "\<forall>t t'. r = NewGame t t' \<longrightarrow> str_int (py_int t) \<noteq> sid"
  shows "\<exists>st'. snd (serve cfg r gs) sid = Some st' \<and>
    (completed st \<longrightarrow> completed st') \<and>
    (\<forall>p. puzzles st p = Some True \<longrightarrow> puzzles st' p = Some True) \<and>
    (\<forall>k. items st k = Some True \<longrightarrow> items st' k = Some True)"
proof (cases r)
  case (NewGame t t')
  then show ?thesis using assms by (simp add: new_game_def Let_def)
next
  case (GetView now sid')
  then show ?thesis
    using get_game_state_sessions [of cfg now sid' gs] assms(1) by (cases "sid' = sid") auto
next
  case (AttemptSolve sid' pid data)
  then show ?thesis
    using solve_puzzle_sessions [of cfg sid' pid data gs] assms(1)
    by (cases "sid' = sid") auto
next
  case (UseHint sid' pid)
  then show ?thesis
    using get_hint_sessions [of cfg sid' pid gs] assms(1) by (cases "sid' = sid") auto
qed

lemma serve_all_keeps_flags:
  assumes "gs sid = Some st"
    and "\<forall>r \<in> set rs. \<forall>t t'. r = NewGame t t' \<longrightarrow> str_int (py_int t) \<noteq> sid"
  shows "\<exists>st'. serve_all cfg rs gs sid = Some st' \<and>
    (completed st \<longrightarrow> completed st') \<and>
    (\<forall>p. puzzles st p = Some True \<longrightarrow> puzzles st' p = Some True) \<and>
    (\<forall>k. items st k = Some True \<longrightarrow> items st' k = Some True)"
  using assms
proof (induction rs arbitrary: gs st)
  case Nil
  then show ?case by simp
next
  case (Cons r rs)
  from Cons.prems have "\<forall>t t'. r = NewGame t t' \<longrightarrow> str_int (py_int t) \<noteq> sid" by simp
  with Cons.prems(1) obtain st1 where st1: "snd (serve cfg r gs) sid = Some st1"
    and c1: "completed st \<longrightarrow> completed st1"
    and p1: "\<forall>p. puzzles st p = Some True \<longrightarrow> puzzles st1 p = Some True"
    and i1: "\<forall>k. items st k = Some True \<longrightarrow> items st1 k = Some True"
    using serve_keeps_flags [where gs = gs and sid = sid and st = st and r = r and cfg = cfg]
    by blast
  from Cons.prems(2) have "\<forall>r \<in> set rs. \<forall>t t'. r = NewGame t t' \<longrightarrow> str_int (py_int t) \<noteq> sid"
    by simp
  with st1 obtain st2 where "serve_all cfg rs (snd (serve cfg r gs)) sid = Some st2"
    and "completed st1 \<longrightarrow> completed st2"
    and "\<forall>p. puzzles st1 p = Some True \<longrightarrow> puzzles st2 p = Some True"
    and "\<forall>k. items st1 k = Some True \<longrightarrow> items st2 k = Some True"
    using Cons.IH [where gs = "snd (serve cfg r gs)" and st = st1] by blast
  with c1 p1 i1 show ?case by auto
qed

lemma map_of_False_keys:
  "k \<in> set (map fst xs) \<Longrightarrow> map_of (map (\<lambda>(k, d). (k, False)) xs) k = Some False"
  by (induction xs) auto

lemma wf_session_create: "wf_session cfg (create_new_game_state cfg t)"
  by (simp add: wf_session_def create_new_game_state_def map_of_False_keys del: set_map)

lemma wf_session_dom:
  assumes "wf_session cfg st" and "dom (puzzles st) \<subseteq> dom (puzzles st')"
    and "dom (items st) \<subseteq> dom (items st')"
  shows "wf_session cfg st'"
  unfolding wf_session_def
proof (intro conjI ballI)
  fix k assume "k \<in> set (map fst (cfg_puzzles cfg))"
  then have "k \<in> dom (puzzles st)" using assms(1) by (auto simp: wf_session_def)
  then show "puzzles st' k \<noteq> None" using assms(2) by auto
next
  fix k assume "k \<in> set (map fst (cfg_items cfg))"
  then have "k \<in> dom (items st)" using assms(1) by (auto simp: wf_session_def)
  then show "items st' k \<noteq> None" using assms(3) by auto
qed

lemma serve_sessions:
  "(\<exists>t t'. snd (serve cfg r gs) = gs(str_int (py_int t) \<mapsto> create_new_game_state cfg t')) \<or>
   snd (serve cfg r gs) = gs \<or>
   (\<exists>s st st2. gs s = Some st \<and> snd (serve cfg r gs) = gs(s \<mapsto> st2) \<and>
      dom (puzzles st) \<subseteq> dom (puzzles st2) \<and> dom (items st) \<subseteq> dom (items st2))"
proof (cases r)
  case (NewGame t t')
  then have "snd (serve cfg r gs) = gs(str_int (py_int t) \<mapsto> create_new_game_state cfg t')"
    by (simp add: new_game_def Let_def)
  then show ?thesis by blast
next
  case (GetView now sid')
  from get_game_state_sessions [of cfg now sid' gs] show ?thesis
  proof
    assume "snd (get_game_state cfg now sid' gs) = gs"
    then show ?thesis using GetView by simp
  next
    assume "\<exists>st. gs sid' = Some st \<and> \<not> completed st \<and> time_remaining cfg now st \<le> 0 \<and>
      snd (get_game_state cfg now sid' gs) =
        gs(sid' \<mapsto> st\<lparr>completed := True, success := Some False\<rparr>)"
    then obtain st where "gs sid' = Some st"
      and "snd (serve cfg r gs) = gs(sid' \<mapsto> st\<lparr>completed := True, success := Some False\<rparr>)"
      using GetView by auto
    moreover have "dom (puzzles st) \<subseteq> dom (puzzles (st\<lparr>completed := True, success := Some False\<rparr>))"
      and "dom (items st) \<subseteq> dom (items (st\<lparr>completed := True, success := Some False\<rparr>))"
      by simp_all
    ultimately show ?thesis by blast
  qed
next
  case (AttemptSolve sid' pid data)
  from solve_puzzle_sessions [of cfg sid' pid data gs] show ?thesis
  proof
    assume "snd (solve_puzzle cfg sid' pid data gs) = gs"
    then show ?thesis using AttemptSolve by simp
  next
    assume "\<exists>st st'. gs sid' = Some st \<and> \<not> completed st \<and> puzzles st pid = Some False \<and>
      snd (solve_puzzle cfg sid' pid data gs) = gs(sid' \<mapsto> st') \<and>
      (st' = st\<lparr>puzzles := (puzzles st)(pid \<mapsto> True), completed := True, success := Some True\<rparr> \<or>
       puzzles st' = (puzzles st)(pid \<mapsto> True) \<and> completed st' = completed st \<and>
       success st' = success st \<and> hints_used st' = hints_used st \<and>
       start_time st' = start_time st \<and>
       (\<forall>k. items st k = Some True \<longrightarrow> items st' k = Some True) \<and>
       dom (items st') = dom (items st))"
    then obtain st st2 where st: "gs sid' = Some st"
      and upd: "snd (serve cfg r gs) = gs(sid' \<mapsto> st2)"
      and alt: "st2 = st\<lparr>puzzles := (puzzles st)(pid \<mapsto> True), completed := True, success := Some True\<rparr> \<or>
         puzzles st2 = (puzzles st)(pid \<mapsto> True) \<and> dom (items st2) = dom (items st)"
      using AttemptSolve by auto
    from alt have "dom (puzzles st) \<subseteq> dom (puzzles st2)" and "dom (items st) \<subseteq> dom (items st2)"
      by auto
    with st upd show ?thesis by blast
  qed
next
  case (UseHint sid' pid)
  from get_hint_sessions [of cfg sid' pid gs] show ?thesis
  proof
    assume "snd (get_hint cfg sid' pid gs) = gs"
    then show ?thesis using UseHint by simp
  next
    assume "\<exists>st. gs sid' = Some st \<and>
      snd (get_hint cfg sid' pid gs) = gs(sid' \<mapsto> st\<lparr>hints_used := hints_used st + 1\<rparr>)"
    then obtain st where "gs sid' = Some st"
      and "snd (serve cfg r gs) = gs(sid' \<mapsto> st\<lparr>hints_used := hints_used st + 1\<rparr>)"
      using UseHint by auto
    moreover have "dom (puzzles st) \<subseteq> dom (puzzles (st\<lparr>hints_used := hints_used st + 1\<rparr>))"
      and "dom (items st) \<subseteq> dom (items (st\<lparr>hints_used := hints_used st + 1\<rparr>))"
      by simp_all
    ultimately show ?thesis by blast
  qed
qed

text \<open>Every session the handlers store holds every key of the configuration.\<close>

lemma serve_keeps_wf:
  assumes "\<forall>sid st. gs sid = Some st \<longrightarrow> wf_session cfg st"
    and a: "snd (serve cfg r gs) sid = Some st'"
  shows "wf_session cfg st'"
proof -
  from serve_sessions [of cfg r gs] consider
    (new) t t' where "snd (serve cfg r gs) = gs(str_int (py_int t) \<mapsto> create_new_game_state cfg t')"
  | (same) "snd (serve cfg r gs) = gs"
  | (upd) s st st2 where "gs s = Some st" and "snd (serve cfg r gs) = gs(s \<mapsto> st2)"
      and "dom (puzzles st) \<subseteq> dom (puzzles st2)" and "dom (items st) \<subseteq> dom (items st2)"
    by blast
  then show ?thesis
  proof cases
    case new
    then show ?thesis using a assms(1) wf_session_create by (auto split: if_splits)
  next
    case same
    then show ?thesis using a assms(1) by simp
  next
    case upd
    show ?thesis
    proof (cases "s = sid")
      case True
      then have "st' = st2" using a upd(2) by simp
      moreover have "wf_session cfg st" using assms(1) upd(1) by blast
      ultimately show ?thesis using wf_session_dom upd(3,4) by blast
    next
      case False
      then have "gs sid = Some st'" using a upd(2) by simp
      then show ?thesis using assms(1) by blast
    qed
  qed
qed

lemma serve_all_keeps_wf:
  assumes "\<forall>sid st. gs sid = Some st \<longrightarrow> wf_session cfg st"
  shows "\<forall>sid st. serve_all cfg rs gs sid = Some st \<longrightarrow> wf_session cfg st"
  using assms
proof (induction rs arbitrary: gs)
  case Nil
  then show ?case by simp
next
  case (Cons r rs)
  have "\<forall>sid st. snd (serve cfg r gs) sid = Some st \<longrightarrow> wf_session cfg st"
    using serve_keeps_wf [of gs cfg r] Cons.prems by blast
  then show ?case using Cons.IH by simp
qed

subsection \<open>The view of a session\<close>

lemma time_remaining_le_0:
  "time_remaining cfg now st \<le> 0 \<longleftrightarrow> real_of_int (time_limit cfg) \<le> now - start_time st"
  by (simp add: time_remaining_def Let_def max_def)

lemma get_game_state_wf:
  assumes "gs sid = Some st" and "wf_session cfg st"
    and "st' = (if time_remaining cfg now st \<le> 0 \<and> \<not> completed st
                then st\<lparr>completed := True, success := Some False\<rparr> else st)"
  shows "get_game_state cfg now sid gs =
    (Inr (JObj [(''time_remaining'', JInt (py_int (time_remaining cfg now st))),
                (''puzzles'',
                 JObj (map (\<lambda>(k, d). (k, JObj [(''solved'', JBool (the (puzzles st k))),
                                                (''description'', JStr (p_description d))]))
                        (cfg_puzzles cfg))),
                (''items'',
                 JObj (map (\<lambda>(k, d). (k, JObj [(''found'', JBool (the (items st k))),
                                                (''description'',
                                                 JStr (if the (items st k) then i_description d
                                                       else ''???''))]))
                        (cfg_items cfg))),
                (''hints_used'', JInt (hints_used st)),
                (''completed'', JBool (completed st')),
                (''success'', JBool (case success st' of None \<Rightarrow> False | Some b \<Rightarrow> b))],
          200),
     gs(sid \<mapsto> st'))"
proof -
  have p: "puzzles st' = puzzles st" and i: "items st' = items st"
    and h: "hints_used st' = hints_used st"
    by (simp_all add: assms(3))
  have "\<forall>k \<in> set (map fst (cfg_puzzles cfg)). puzzles st' k \<noteq> None"
    using assms(2) by (simp add: wf_session_def p)
  then have pv: "puzzles_view (cfg_puzzles cfg) st' =
      Inr (map (\<lambda>(k, d). (k, JObj [(''solved'', JBool (the (puzzles st' k))),
                                    (''description'', JStr (p_description d))]))
             (cfg_puzzles cfg))"
    by (rule puzzles_view_wf)
  have "\<forall>k \<in> set (map fst (cfg_items cfg)). items st' k \<noteq> None"
    using assms(2) by (simp add: wf_session_def i)
  then have iv: "items_view (cfg_items cfg) st' =
      Inr (map (\<lambda>(k, d). (k, JObj [(''found'', JBool (the (items st' k))),
                                    (''description'',
                                     JStr (if the (items st' k) then i_description d
                                           else ''???''))]))
             (cfg_items cfg))"
    by (rule items_view_wf)
  show ?thesis
    using assms(1)
    by (simp add: get_game_state_def Let_def assms(3) [symmetric] pv iv p i h
        split del: if_split)
qed

lemma solve_puzzle_completes:
  assumes "gs sid = Some st" and "\<not> completed st"
    and "snd (solve_puzzle cfg sid' pid data gs) sid = Some st'" and "completed st'"
  shows "success st' = Some True"
  using solve_puzzle_sessions [of cfg sid' pid data gs] assms
  by (cases "sid' = sid") auto

lemma serve_completes:
  assumes "gs sid = Some st" and "\<not> completed st" and "\<not> is_GetView r"
    and "snd (serve cfg r gs) sid = Some st'" and "completed st'"
  shows "success st' = Some True"
proof (cases r)
  case (NewGame t t')
  then show ?thesis
    using assms by (auto simp: new_game_def Let_def fresh_fields split: if_splits)
next
  case (GetView now sid')
  then show ?thesis using assms(3) by simp
next
  case (AttemptSolve sid' pid data)
  then show ?thesis using solve_puzzle_completes [where gs = gs and sid = sid and st = st, OF assms(1,2)] assms(4,5)
    by simp
next
  case (UseHint sid' pid)
  then show ?thesis
    using get_hint_sessions [of cfg sid' pid gs] assms by (cases "sid' = sid") auto
qed

text \<open>
  Claim C2. For a stored session, \<open>get_game_state\<close> answers with status 200 and reports as
  \<open>time_remaining\<close> the integer part of \<open>max(0, time_limit - elapsed)\<close>, where \<open>elapsed\<close> is the
  clock reading minus the start time. When the elapsed time has reached the limit and
  the session is not completed, this very call reports 0, completed true and success
  false, and stores the session with \<open>completed\<close> true and \<open>success\<close> false; in every other
  case it returns the sessions as they were. No other request makes this transition:
  when a request that is not a \<open>get_game_state\<close> turns a session that was not completed
  into a completed one, its \<open>success\<close> is true.
\<close>

theorem get_game_state_times_out:
  assumes "gs sid = Some st" and "wf_session cfg st"
  shows "(\<exists>body. fst (get_game_state cfg now sid gs) = Inr (body, 200) \<and>
            json_get body ''time_remaining'' =
              Some (JInt (py_int (max 0 (real_of_int (time_limit cfg) - (now - start_time st))))) \<and>
            (real_of_int (time_limit cfg) \<le> now - start_time st \<and> \<not> completed st \<longrightarrow>
               json_get body ''time_remaining'' = Some (JInt 0) \<and>
               json_get body ''completed'' = Some (JBool True) \<and>
               json_get body ''success'' = Some (JBool False))) \<and>
         (real_of_int (time_limit cfg) \<le> now - start_time st \<and> \<not> completed st \<longrightarrow>
            snd (get_game_state cfg now sid gs) =
              gs(sid \<mapsto> st\<lparr>completed := True, success := Some False\<rparr>)) \<and>
         (\<not> (real_of_int (time_limit cfg) \<le> now - start_time st \<and> \<not> completed st) \<longrightarrow>
            snd (get_game_state cfg now sid gs) = gs) \<and>
         (\<forall>r st'. \<not> is_GetView r \<and> \<not> completed st \<and>
            snd (serve cfg r gs) sid = Some st' \<and> completed st' \<longrightarrow> success st' = Some True)"
proof -
  define st' where "st' = (if time_remaining cfg now st \<le> 0 \<and> \<not> completed st
                then st\<lparr>completed := True, success := Some False\<rparr> else st)"
  note view = get_game_state_wf [where gs = gs and sid = sid and st = st and cfg = cfg
      and now = now and st' = st', OF assms st'_def]
  have tr: "time_remaining cfg now st = max 0 (real_of_int (time_limit cfg) - (now - start_time st))"
    by (simp add: time_remaining_def)
  have late: "st' = st\<lparr>completed := True, success := Some False\<rparr>"
    if "real_of_int (time_limit cfg) \<le> now - start_time st \<and> \<not> completed st"
    using that by (simp add: st'_def time_remaining_le_0)
  have early: "st' = st"
    if "\<not> (real_of_int (time_limit cfg) \<le> now - start_time st \<and> \<not> completed st)"
    using that by (auto simp: st'_def time_remaining_le_0)
  have zero: "py_int (time_remaining cfg now st) = 0"
    if "real_of_int (time_limit cfg) \<le> now - start_time st"
    using that by (simp add: tr py_int_def max_def)
  have same: "gs(sid \<mapsto> st) = gs" using assms(1) by (rule map_upd_triv)
  have answer: "\<exists>body. fst (get_game_state cfg now sid gs) = Inr (body, 200) \<and>
            json_get body ''time_remaining'' =
              Some (JInt (py_int (max 0 (real_of_int (time_limit cfg) - (now - start_time st))))) \<and>
            (real_of_int (time_limit cfg) \<le> now - start_time st \<and> \<not> completed st \<longrightarrow>
               json_get body ''time_remaining'' = Some (JInt 0) \<and>
               json_get body ''completed'' = Some (JBool True) \<and>
               json_get body ''success'' = Some (JBool False))"
    using late zero by (auto simp: view tr [symmetric])
  have stored: "snd (get_game_state cfg now sid gs) =
      gs(sid \<mapsto> st\<lparr>completed := True, success := Some False\<rparr>)"
    if "real_of_int (time_limit cfg) \<le> now - start_time st \<and> \<not> completed st"
    using late [OF that] by (simp add: view)
  have kept: "snd (get_game_state cfg now sid gs) = gs"
    if "\<not> (real_of_int (time_limit cfg) \<le> now - start_time st \<and> \<not> completed st)"
    using early [OF that] by (simp add: view same)
  have others: "\<forall>r st'. \<not> is_GetView r \<and> \<not> completed st \<and>
      snd (serve cfg r gs) sid = Some st' \<and> completed st' \<longrightarrow> success st' = Some True"
    using serve_completes [where gs = gs and sid = sid and st = st and cfg = cfg, OF assms(1)]
    by blast
  from answer stored kept others show ?thesis by blast
qed

theorem get_game_state_times_out_witness:
  "(\<exists>body. fst (get_game_state GAME_CONFIG 2000 ''100'' example_states) = Inr (body, 200) \<and>
      json_get body ''time_remaining'' = Some (JInt 0) \<and>
      json_get body ''completed'' = Some (JBool True) \<and>
      json_get body ''success'' = Some (JBool False)) \<and>
   snd (get_game_state GAME_CONFIG 2000 ''100'' example_states) =
     example_states(''100'' \<mapsto> fresh_session\<lparr>completed := True, success := Some False\<rparr>) \<and>
   (\<exists>body. fst (get_game_state GAME_CONFIG (1401 / 2) ''100'' example_states) = Inr (body, 200) \<and>
      json_get body ''time_remaining'' = Some (JInt 1199)) \<and>
   snd (get_game_state GAME_CONFIG (1401 / 2) ''100'' example_states) = example_states \<and>
   success (three_solved_session\<lparr>puzzles := (puzzles three_solved_session)(''door'' \<mapsto> True),
                                  completed := True, success := Some True\<rparr>) = Some True"
proof -
  have s: "example_states ''100'' = Some fresh_session"
    and w: "wf_session GAME_CONFIG fresh_session"
    and s3: "three_solved_states ''100'' = Some three_solved_session"
    and w3: "wf_session GAME_CONFIG three_solved_session"
    by (simp_all add: example_states_100 wf_session_examples)
  note late = get_game_state_times_out [where gs = example_states and sid = "''100''"
      and st = fresh_session and cfg = GAME_CONFIG and now = 2000, OF s w]
  note early = get_game_state_times_out [where gs = example_states and sid = "''100''"
      and st = fresh_session and cfg = GAME_CONFIG and now = "1401 / 2", OF s w]
  note other = get_game_state_times_out [where gs = three_solved_states and sid = "''100''"
      and st = three_solved_session and cfg = GAME_CONFIG and now = 0, OF s3 w3]
  have a: "(\<exists>body. fst (get_game_state GAME_CONFIG 2000 ''100'' example_states) = Inr (body, 200) \<and>
      json_get body ''time_remaining'' = Some (JInt 0) \<and>
      json_get body ''completed'' = Some (JBool True) \<and>
      json_get body ''success'' = Some (JBool False)) \<and>
    snd (get_game_state GAME_CONFIG 2000 ''100'' example_states) =
      example_states(''100'' \<mapsto> fresh_session\<lparr>completed := True, success := Some False\<rparr>)"
    using late by (auto simp: fresh_session_fields GAME_CONFIG_fields)
  have b: "(\<exists>body. fst (get_game_state GAME_CONFIG (1401 / 2) ''100'' example_states) = Inr (body, 200) \<and>
      json_get body ''time_remaining'' = Some (JInt 1199)) \<and>
    snd (get_game_state GAME_CONFIG (1401 / 2) ''100'' example_states) = example_states"
    using early by (auto simp: fresh_session_fields GAME_CONFIG_fields py_int_def)
  have "snd (serve GAME_CONFIG (AttemptSolve ''100'' ''door'' (Dict Map.empty)) three_solved_states) ''100'' =
      Some (three_solved_session\<lparr>puzzles := (puzzles three_solved_session)(''door'' \<mapsto> True),
                                  completed := True, success := Some True\<rparr>)"
    by (simp add: solve_puzzle_def read_solution_def solve_door_def s3 three_solved_session_fields GAME_CONFIG_fields)
  then have c: "success (three_solved_session\<lparr>puzzles := (puzzles three_solved_session)(''door'' \<mapsto> True),
                                  completed := True, success := Some True\<rparr>) = Some True"
    using other by (simp add: three_solved_session_fields)
  from a b c show ?thesis by simp
qed

subsection \<open>The item a solved puzzle reveals\<close>

lemma map_of_map_keyed:
  "map_of (map (\<lambda>(k, d). (k, f k d)) xs) k = map_option (f k) (map_of xs k)"
  by (induction xs) auto

text \<open>
  Claim C5. When a solve request matches the solution of a puzzle other than the door,
  and the first item of the configuration that lies at this puzzle and is not found yet
  is \<open>iid\<close>, the answer names \<open>iid\<close> as \<open>item_found\<close> and carries its configured
  description, and the stored session differs from the old one in the solved flag of the
  puzzle and in the found flag of \<open>iid\<close> alone. A \<open>get_game_state\<close> request that follows
  shows \<open>iid\<close> with \<open>found\<close> true and its configured description. The instance that
  follows the theorem is the safe of \<open>GAME_CONFIG\<close> solved with 1234, which reveals the key.
\<close>

theorem solve_puzzle_reveals_first_item:
  assumes "gs sid = Some st" and "\<not> completed st" and "puzzles st pid = Some False"
    and "pid \<noteq> ''door''" and "map_of (cfg_puzzles cfg) pid = Some d"
    and "solution d = Some sol" and "data ''solution'' = Some (JStr s)"
    and "lower s = lower sol" and "wf_session cfg st"
    and "distinct (map fst (cfg_items cfg))"
    and "find (\<lambda>(k, i). location i = pid \<and> items st k = Some False) (cfg_items cfg) =
           Some (iid, it)"
  shows "solve_puzzle cfg sid pid (Dict data) gs =
           (Inr (JObj [(''success'', JBool True),
                       (''message'', JStr (''Puzzle solved! You found: '' @ i_description it)),
                       (''item_found'', JStr iid)], 200),
            gs(sid \<mapsto> st\<lparr>puzzles := (puzzles st)(pid \<mapsto> True),
                            items := (items st)(iid \<mapsto> True)\<rparr>)) \<and>
         (\<exists>body ivs.
            fst (get_game_state cfg now sid (snd (solve_puzzle cfg sid pid (Dict data) gs))) =
              Inr (body, 200) \<and>
            json_get body ''items'' = Some (JObj ivs) \<and>
            map_of ivs iid = Some (JObj [(''found'', JBool True),
                                         (''description'', JStr (i_description it))]))"
proof -
  let ?st1 = "st\<lparr>puzzles := (puzzles st)(pid \<mapsto> True)\<rparr>"
  let ?st2 = "st\<lparr>puzzles := (puzzles st)(pid \<mapsto> True), items := (items st)(iid \<mapsto> True)\<rparr>"
  let ?gs2 = "gs(sid \<mapsto> ?st2)"
  have "solve_puzzle cfg sid pid (Dict data) gs =
    (if lower s = lower sol
     then reveal_item (cfg_items cfg) pid sid ?st1 gs
     else (Inr (JObj [(''success'', JBool False),
                      (''message'', JStr ''Incorrect solution. Try again.'')], 200), gs))"
    using assms(1-7) by (rule solve_puzzle_other)
  then have eq: "solve_puzzle cfg sid pid (Dict data) gs = reveal_item (cfg_items cfg) pid sid ?st1 gs"
    using assms(8) by simp
  have keys: "\<forall>k \<in> set (map fst (cfg_items cfg)). items ?st1 k \<noteq> None"
    using assms(9) by (simp add: wf_session_def)
  have found: "find (\<lambda>(k, i). location i = pid \<and> items ?st1 k = Some False) (cfg_items cfg) =
      Some (iid, it)"
    using assms(11) by simp
  have solved: "solve_puzzle cfg sid pid (Dict data) gs =
      (Inr (JObj [(''success'', JBool True),
                  (''message'', JStr (''Puzzle solved! You found: '' @ i_description it)),
                  (''item_found'', JStr iid)], 200), ?gs2)"
    unfolding eq reveal_item_wf [OF keys] found by simp
  have "(iid, it) \<in> set (cfg_items cfg)"
    using assms(11) by (auto simp: find_Some_iff in_set_conv_nth)
  then have lookup: "map_of (cfg_items cfg) iid = Some it"
    using assms(10) by simp
  have wf2: "wf_session cfg ?st2"
    using assms(9) by (rule wf_session_dom) auto
  define st' where "st' = (if time_remaining cfg now ?st2 \<le> 0 \<and> \<not> completed ?st2
      then ?st2\<lparr>completed := True, success := Some False\<rparr> else ?st2)"
  have stored: "?gs2 sid = Some ?st2" by simp
  note view = get_game_state_wf [where gs = ?gs2 and sid = sid and st = ?st2 and cfg = cfg
      and now = now and st' = st', OF stored wf2 st'_def]
  have "\<exists>body ivs.
      fst (get_game_state cfg now sid ?gs2) = Inr (body, 200) \<and>
      json_get body ''items'' = Some (JObj ivs) \<and>
      map_of ivs iid = Some (JObj [(''found'', JBool True),
                                   (''description'', JStr (i_description it))])"
    unfolding view by (simp add: map_of_map_keyed lookup)
  then show ?thesis
    unfolding solved by simp
qed

theorem solve_puzzle_reveals_first_item_witness:
  "solve_puzzle GAME_CONFIG ''100'' ''safe'' (Dict [''solution'' \<mapsto> JStr ''1234'']) example_states =
     (Inr (JObj [(''success'', JBool True),
                 (''message'', JStr ''Puzzle solved! You found: A small golden key.''),
                 (''item_found'', JStr ''key'')], 200),
      example_states(''100'' \<mapsto> fresh_session\<lparr>puzzles := (puzzles fresh_session)(''safe'' \<mapsto> True),
                                               items := (items fresh_session)(''key'' \<mapsto> True)\<rparr>)) \<and>
   (\<exists>body ivs.
      fst (get_game_state GAME_CONFIG 130 ''100''
             (snd (solve_puzzle GAME_CONFIG ''100'' ''safe'' (Dict [''solution'' \<mapsto> JStr ''1234''])
                     example_states))) = Inr (body, 200) \<and>
      json_get body ''items'' = Some (JObj ivs) \<and>
      map_of ivs ''key'' = Some (JObj [(''found'', JBool True),
                                      (''description'', JStr ''A small golden key.'')]))"
proof -
  note h = solve_puzzle_reveals_first_item [where gs = example_states and sid = "''100''"
      and st = fresh_session and pid = "''safe''" and cfg = GAME_CONFIG
      and d = "\<lparr>p_solved = False, solution = Some ''1234'', requires = None,
                 p_description = ''A locked safe with a 4-digit combination.''\<rparr>"
      and sol = "''1234''" and data = "[''solution'' \<mapsto> JStr ''1234'']" and s = "''1234''"
      and iid = "''key''"
      and it = "\<lparr>i_found = False, location = ''safe'', i_description = ''A small golden key.''\<rparr>"
      and now = 130]
  have a: "solve_puzzle GAME_CONFIG ''100'' ''safe'' (Dict [''solution'' \<mapsto> JStr ''1234'']) example_states =
     (Inr (JObj [(''success'', JBool True),
                 (''message'', JStr ''Puzzle solved! You found: A small golden key.''),
                 (''item_found'', JStr ''key'')], 200),
      example_states(''100'' \<mapsto> fresh_session\<lparr>puzzles := (puzzles fresh_session)(''safe'' \<mapsto> True),
                                               items := (items fresh_session)(''key'' \<mapsto> True)\<rparr>))"
    using h [THEN conjunct1]
    by (simp add: example_states_100 fresh_session_fields wf_session_examples GAME_CONFIG_fields)
  have b: "\<exists>body ivs.
      fst (get_game_state GAME_CONFIG 130 ''100''
             (snd (solve_puzzle GAME_CONFIG ''100'' ''safe'' (Dict [''solution'' \<mapsto> JStr ''1234''])
                     example_states))) = Inr (body, 200) \<and>
      json_get body ''items'' = Some (JObj ivs) \<and>
      map_of ivs ''key'' = Some (JObj [(''found'', JBool True),
                                      (''description'', JStr ''A small golden key.'')])"
    using h [THEN conjunct2]
    by (simp add: example_states_100 fresh_session_fields wf_session_examples GAME_CONFIG_fields)
  from a b show ?thesis by (rule conjI)
qed

subsection \<open>Descriptions of items that are not found\<close>

lemma items_view_placeholder:
  assumes "items_view its st = Inr ivs" and "(k, v) \<in> set ivs" and "items st k = Some False"
  shows "v = JObj [(''found'', JBool False), (''description'', JStr ''???'')]"
  using assms
proof (induction its arbitrary: ivs)
  case Nil
  then show ?case by simp
next
  case (Cons x its)
  obtain a b where x: "x = (a, b)" by (cases x)
  from Cons.prems(1) obtain f rest where f: "items st a = Some f"
    and rest: "items_view its st = Inr rest"
    and ivs: "ivs = (a, JObj [(''found'', JBool f),
                              (''description'', JStr (if f then i_description b else ''???''))]) # rest"
    by (auto simp: x split: option.splits sum.splits)
  from Cons.prems(2) ivs consider
    "k = a" and "v = JObj [(''found'', JBool f),
                           (''description'', JStr (if f then i_description b else ''???''))]"
    | "(k, v) \<in> set rest"
    by auto
  then show ?case
  proof cases
    case 1
    then show ?thesis using f Cons.prems(3) by simp
  next
    case 2
    then show ?thesis using Cons.IH [OF rest _ Cons.prems(3)] by simp
  qed
qed

lemma items_view_same:
  assumes "list_all2 (\<lambda>(k, i) (k', i'). k' = k \<and>
             (items st k = Some True \<longrightarrow> i_description i' = i_description i)) its its'"
  shows "items_view its' st = items_view its st"
  using assms
proof (induction its its' rule: list_all2_induct)
  case Nil
  show ?case by simp
next
  case (Cons x xs y ys)
  obtain k i where x: "x = (k, i)" by (cases x)
  obtain k' i' where y: "y = (k', i')" by (cases y)
  from Cons.hyps(1) have k: "k' = k"
    and d: "items st k = Some True \<Longrightarrow> i_description i' = i_description i"
    by (simp_all add: x y)
  show ?case
  proof (cases "items st k")
    case None
    then show ?thesis by (simp add: x y k)
  next
    case (Some f)
    then show ?thesis using d Cons.IH by (cases f) (simp_all add: x y k split: sum.split)
  qed
qed

lemma get_game_state_items:
  assumes "gs sid = Some st" and "fst (get_game_state cfg now sid gs) = Inr (body, code)"
    and "json_get body ''items'' = Some (JObj ivs)"
  shows "\<exists>st'. items st' = items st \<and> items_view (cfg_items cfg) st' = Inr ivs"
proof -
  define st' where "st' = (if time_remaining cfg now st \<le> 0 \<and> \<not> completed st
      then st\<lparr>completed := True, success := Some False\<rparr> else st)"
  have i: "items st' = items st" by (simp add: st'_def)
  have "items_view (cfg_items cfg) st' = Inr ivs"
    using assms
    by (auto simp: get_game_state_def Let_def st'_def [symmetric]
        split: sum.splits split del: if_split)
  with i show ?thesis by blast
qed

lemma get_game_state_unfold:
  assumes "gs sid = Some st"
    and "st' = (if time_remaining cfg now st \<le> 0 \<and> \<not> completed st
                then st\<lparr>completed := True, success := Some False\<rparr> else st)"
  shows "get_game_state cfg now sid gs =
    (case puzzles_view (cfg_puzzles cfg) st' of
       Inl e \<Rightarrow> (Inl e, gs(sid \<mapsto> st'))
     | Inr pv \<Rightarrow>
         (case items_view (cfg_items cfg) st' of
            Inl e \<Rightarrow> (Inl e, gs(sid \<mapsto> st'))
          | Inr iv \<Rightarrow>
              (Inr (JObj [(''time_remaining'', JInt (py_int (time_remaining cfg now st))),
                          (''puzzles'', JObj pv),
                          (''items'', JObj iv),
                          (''hints_used'', JInt (hints_used st')),
                          (''completed'', JBool (completed st')),
                          (''success'',
                           JBool (case success st' of None \<Rightarrow> False | Some b \<Rightarrow> b))],
                    200), gs(sid \<mapsto> st'))))"
  unfolding assms(2) using assms(1)
  by (simp add: get_game_state_def Let_def split del: if_split)

text \<open>
  Claim C9. In a \<open>get_game_state\<close> response every item whose found flag is false is
  shown with \<open>found\<close> false and the fixed description \<open>???\<close>. And the whole outcome of
  the request (response and stored sessions) is the same under two configurations with
  the same time limit, the same puzzles and the same item ids in the same order, as
  long as they agree on the description of every item the session has found: what the
  configuration says about the other items does not reach the response.
\<close>

theorem get_game_state_hides_unfound:
  assumes "gs sid = Some st"
    and "time_limit cfg' = time_limit cfg" and "cfg_puzzles cfg' = cfg_puzzles cfg"
    and "list_all2 (\<lambda>(k, i) (k', i'). k' = k \<and>
           (items st k = Some True \<longrightarrow> i_description i' = i_description i))
         (cfg_items cfg) (cfg_items cfg')"
  shows "get_game_state cfg' now sid gs = get_game_state cfg now sid gs \<and>
    (\<forall>body code ivs k v.
       fst (get_game_state cfg now sid gs) = Inr (body, code) \<and>
       json_get body ''items'' = Some (JObj ivs) \<and> (k, v) \<in> set ivs \<and>
       items st k = Some False \<longrightarrow>
       v = JObj [(''found'', JBool False), (''description'', JStr ''???'')])"
proof (intro conjI allI impI)
  define st' where "st' = (if time_remaining cfg now st \<le> 0 \<and> \<not> completed st
      then st\<lparr>completed := True, success := Some False\<rparr> else st)"
  have i: "items st' = items st" by (simp add: st'_def)
  have tr: "time_remaining cfg' now st = time_remaining cfg now st"
    by (simp add: time_remaining_def assms(2))
  have "list_all2 (\<lambda>(k, i) (k', i'). k' = k \<and>
           (items st' k = Some True \<longrightarrow> i_description i' = i_description i))
         (cfg_items cfg) (cfg_items cfg')"
    using assms(4) by (simp add: i)
  then have iv: "items_view (cfg_items cfg') st' = items_view (cfg_items cfg) st'"
    by (rule items_view_same)
  have st'_alt: "st' = (if time_remaining cfg' now st \<le> 0 \<and> \<not> completed st
      then st\<lparr>completed := True, success := Some False\<rparr> else st)"
    by (simp only: tr st'_def)
  show "get_game_state cfg' now sid gs = get_game_state cfg now sid gs"
    unfolding get_game_state_unfold [where gs = gs and sid = sid and st = st and st' = st'
        and cfg = cfg and now = now, OF assms(1) st'_def]
      get_game_state_unfold [where gs = gs and sid = sid and st = st and st' = st'
        and cfg = cfg' and now = now, OF assms(1) st'_alt]
    by (simp only: iv assms(3) tr)
next
  fix body code ivs k v
  assume a: "fst (get_game_state cfg now sid gs) = Inr (body, code) \<and>
       json_get body ''items'' = Some (JObj ivs) \<and> (k, v) \<in> set ivs \<and>
       items st k = Some False"
  then obtain st' where "items st' = items st" and "items_view (cfg_items cfg) st' = Inr ivs"
    using get_game_state_items [where gs = gs and sid = sid and st = st, OF assms(1)] by blast
  then show "v = JObj [(''found'', JBool False), (''description'', JStr ''???'')]"
    using a items_view_placeholder [of "cfg_items cfg" st' ivs k v] by simp
qed

theorem get_game_state_hides_unfound_witness:
  "get_game_state
     (GAME_CONFIG\<lparr>cfg_items :=
        [(''key'', \<lparr>i_found = False, location = ''safe'',
            i_description = ''A small golden key.''\<rparr>),
         (''note'', \<lparr>i_found = False, location = ''bookshelf'',
            i_description = ''The code of the safe is 1234.''\<rparr>),
         (''usb_drive'', \<lparr>i_found = False, location = ''computer'',
            i_description = ''The password is password.''\<rparr>)]\<rparr>)
     130 ''100'' safe_solved_states =
   get_game_state GAME_CONFIG 130 ''100'' safe_solved_states \<and>
   (\<exists>body. fst (get_game_state GAME_CONFIG 130 ''100'' safe_solved_states) = Inr (body, 200) \<and>
      json_get body ''items'' =
        Some (JObj [(''key'', JObj [(''found'', JBool True),
                                    (''description'', JStr ''A small golden key.'')]),
                    (''note'', JObj [(''found'', JBool False),
                                     (''description'', JStr ''???'')]),
                    (''usb_drive'', JObj [(''found'', JBool False),
                                          (''description'', JStr ''???'')])]))"
proof -
  note h = get_game_state_hides_unfound [where gs = safe_solved_states and sid = "''100''"
      and st = safe_solved_session and cfg = GAME_CONFIG and now = 130
      and cfg' = "GAME_CONFIG\<lparr>cfg_items :=
        [(''key'', \<lparr>i_found = False, location = ''safe'',
            i_description = ''A small golden key.''\<rparr>),
         (''note'', \<lparr>i_found = False, location = ''bookshelf'',
            i_description = ''The code of the safe is 1234.''\<rparr>),
         (''usb_drive'', \<lparr>i_found = False, location = ''computer'',
            i_description = ''The password is password.''\<rparr>)]\<rparr>"]
  have p1: "safe_solved_states ''100'' = Some safe_solved_session"
    by (simp add: example_states_100)
  have eq: "get_game_state
     (GAME_CONFIG\<lparr>cfg_items :=
        [(''key'', \<lparr>i_found = False, location = ''safe'',
            i_description = ''A small golden key.''\<rparr>),
         (''note'', \<lparr>i_found = False, location = ''bookshelf'',
            i_description = ''The code of the safe is 1234.''\<rparr>),
         (''usb_drive'', \<lparr>i_found = False, location = ''computer'',
            i_description = ''The password is password.''\<rparr>)]\<rparr>)
     130 ''100'' safe_solved_states =
   get_game_state GAME_CONFIG 130 ''100'' safe_solved_states"
    using h [THEN conjunct1]
    by (simp add: p1 GAME_CONFIG_fields safe_solved_session_fields)
  have w: "wf_session GAME_CONFIG safe_solved_session"
    by (simp add: wf_session_examples)
  have "\<exists>body. fst (get_game_state GAME_CONFIG 130 ''100'' safe_solved_states) = Inr (body, 200) \<and>
      json_get body ''items'' =
        Some (JObj [(''key'', JObj [(''found'', JBool True),
                                    (''description'', JStr ''A small golden key.'')]),
                    (''note'', JObj [(''found'', JBool False),
                                     (''description'', JStr ''???'')]),
                    (''usb_drive'', JObj [(''found'', JBool False),
                                          (''description'', JStr ''???'')])])"
    using get_game_state_wf [where gs = safe_solved_states and sid = "''100''"
        and st = safe_solved_session and cfg = GAME_CONFIG and now = 130, OF p1 w refl]
    by (simp add: GAME_CONFIG_fields safe_solved_session_fields)
  with eq show ?thesis by (rule conjI)
qed

subsection \<open>Rejected solve requests\<close>

text \<open>
  Claim C6, as stated, fails: a solve request on a completed session is answered with
  status 400 and a body that holds only the key \<open>error\<close>, not with a 200 response that
  carries \<open>success\<close> false.
\<close>

theorem solve_puzzle_completed_is_400:
  "solve_puzzle GAME_CONFIG ''100'' ''safe'' (Dict [''solution'' \<mapsto> JStr ''1234'']) timed_out_states =
     (Inr (JObj [(''error'', JStr ''Game already completed'')], 400), timed_out_states) \<and>
   \<not> (\<exists>body. fst (solve_puzzle GAME_CONFIG ''100'' ''safe'' (Dict [''solution'' \<mapsto> JStr ''1234''])
                     timed_out_states) = Inr (body, 200) \<and>
          json_get body ''success'' = Some (JBool False))"
  by (simp add: solve_puzzle_def read_solution_def example_states_100 timed_out_session_fields GAME_CONFIG_fields)

text \<open>
  Claim C6, amended. Of the rejected outcomes of a solve request for a known session
  and a known puzzle, the wrong answer and the unmet prerequisites of the door (both
  arise only for a body that is a JSON object) are answered with status 200,
  \<open>success\<close> false and a message; the already completed session
  and the already solved puzzle are answered with status 400 and an error message, with
  no \<open>success\<close> field. In all four cases the dictionary of sessions is returned as it was.
\<close>

theorem solve_puzzle_rejections:
  assumes "gs sid = Some st" and "pid \<in> set (map fst (cfg_puzzles cfg))"
  shows "(completed st \<longrightarrow>
            solve_puzzle cfg sid pid data gs =
              (Inr (JObj [(''error'', JStr ''Game already completed'')], 400), gs)) \<and>
         (\<not> completed st \<and> puzzles st pid = Some True \<longrightarrow>
            solve_puzzle cfg sid pid data gs =
              (Inr (JObj [(''error'', JStr ''Puzzle already solved'')], 400), gs)) \<and>
         (\<not> completed st \<and> puzzles st pid = Some False \<and> pid \<noteq> ''door'' \<and>
          (\<exists>d sol m s. map_of (cfg_puzzles cfg) pid = Some d \<and> solution d = Some sol \<and>
             data = Dict m \<and> m ''solution'' = Some (JStr s) \<and> lower s \<noteq> lower sol) \<longrightarrow>
            solve_puzzle cfg sid pid data gs =
              (Inr (JObj [(''success'', JBool False),
                          (''message'', JStr ''Incorrect solution. Try again.'')], 200), gs)) \<and>
         (\<not> completed st \<and> puzzles st pid = Some False \<and> pid = ''door'' \<and>
          (\<exists>d req m. data = Dict m \<and>
             map_of (cfg_puzzles cfg) ''door'' = Some d \<and> requires d = Some req \<and>
             (\<forall>p \<in> set req. puzzles st p \<noteq> None) \<and>
             (\<exists>p \<in> set req. puzzles st p = Some False)) \<longrightarrow>
            solve_puzzle cfg sid pid data gs =
              (Inr (JObj [(''success'', JBool False),
                          (''message'',
                           JStr ''You need to solve all puzzles before opening the door.'')],
                    200), gs))"
proof (intro conjI impI)
  assume "completed st"
  then show "solve_puzzle cfg sid pid data gs =
      (Inr (JObj [(''error'', JStr ''Game already completed'')], 400), gs)"
    using assms by (simp add: solve_puzzle_def)
next
  assume "\<not> completed st \<and> puzzles st pid = Some True"
  then show "solve_puzzle cfg sid pid data gs =
      (Inr (JObj [(''error'', JStr ''Puzzle already solved'')], 400), gs)"
    using assms by (simp add: solve_puzzle_def)
next
  assume a: "\<not> completed st \<and> puzzles st pid = Some False \<and> pid \<noteq> ''door'' \<and>
          (\<exists>d sol m s. map_of (cfg_puzzles cfg) pid = Some d \<and> solution d = Some sol \<and>
             data = Dict m \<and> m ''solution'' = Some (JStr s) \<and> lower s \<noteq> lower sol)"
  then obtain d sol m s where "map_of (cfg_puzzles cfg) pid = Some d" and "solution d = Some sol"
    and "data = Dict m" and "m ''solution'' = Some (JStr s)" and "lower s \<noteq> lower sol"
    by blast
  then show "solve_puzzle cfg sid pid data gs =
      (Inr (JObj [(''success'', JBool False),
                  (''message'', JStr ''Incorrect solution. Try again.'')], 200), gs)"
    using a assms by (simp add: solve_puzzle_def read_solution_def solve_other_def)
next
  assume a: "\<not> completed st \<and> puzzles st pid = Some False \<and> pid = ''door'' \<and>
          (\<exists>d req m. data = Dict m \<and>
             map_of (cfg_puzzles cfg) ''door'' = Some d \<and> requires d = Some req \<and>
             (\<forall>p \<in> set req. puzzles st p \<noteq> None) \<and>
             (\<exists>p \<in> set req. puzzles st p = Some False))"
  then obtain d req m where m: "data = Dict m" and d: "map_of (cfg_puzzles cfg) ''door'' = Some d"
    and req: "requires d = Some req" and keys: "\<forall>p \<in> set req. puzzles st p \<noteq> None"
    and unmet: "\<exists>p \<in> set req. puzzles st p = Some False"
    by blast
  have "all_solved st req = Inr (\<forall>p \<in> set req. puzzles st p = Some True)"
    using keys by (rule all_solved_wf)
  moreover have "\<not> (\<forall>p \<in> set req. puzzles st p = Some True)"
    using unmet by fastforce
  ultimately have "all_solved st req = Inr False" by simp
  then show "solve_puzzle cfg sid pid data gs =
      (Inr (JObj [(''success'', JBool False),
                  (''message'',
                   JStr ''You need to solve all puzzles before opening the door.'')],
            200), gs)"
    using a assms m d req by (auto simp: solve_puzzle_def read_solution_def solve_door_def)
qed

theorem solve_puzzle_rejections_witness:
  "solve_puzzle GAME_CONFIG ''100'' ''safe'' (Dict [''solution'' \<mapsto> JStr ''1234'']) timed_out_states =
     (Inr (JObj [(''error'', JStr ''Game already completed'')], 400), timed_out_states) \<and>
   solve_puzzle GAME_CONFIG ''100'' ''safe'' (Dict [''solution'' \<mapsto> JStr ''1234'']) safe_solved_states =
     (Inr (JObj [(''error'', JStr ''Puzzle already solved'')], 400), safe_solved_states) \<and>
   solve_puzzle GAME_CONFIG ''100'' ''safe'' (Dict [''solution'' \<mapsto> JStr ''4321'']) example_states =
     (Inr (JObj [(''success'', JBool False),
                 (''message'', JStr ''Incorrect solution. Try again.'')], 200), example_states) \<and>
   solve_puzzle GAME_CONFIG ''100'' ''door'' (Dict [''solution'' \<mapsto> JStr ''1234'']) safe_solved_states =
     (Inr (JObj [(''success'', JBool False),
                 (''message'',
                  JStr ''You need to solve all puzzles before opening the door.'')], 200),
      safe_solved_states)"
proof -
  have l: "lower ''4321'' = ''4321''" by code_simp
  have a: "solve_puzzle GAME_CONFIG ''100'' ''safe'' (Dict [''solution'' \<mapsto> JStr ''1234'']) timed_out_states =
     (Inr (JObj [(''error'', JStr ''Game already completed'')], 400), timed_out_states)"
    using solve_puzzle_rejections [where gs = timed_out_states and sid = "''100''"
        and st = timed_out_session and pid = "''safe''" and cfg = GAME_CONFIG
        and data = "Dict [''solution'' \<mapsto> JStr ''1234'']"]
    by (simp add: example_states_100 timed_out_session_fields GAME_CONFIG_puzzle_ids)
  have b: "solve_puzzle GAME_CONFIG ''100'' ''safe'' (Dict [''solution'' \<mapsto> JStr ''1234'']) safe_solved_states =
     (Inr (JObj [(''error'', JStr ''Puzzle already solved'')], 400), safe_solved_states)"
    using solve_puzzle_rejections [where gs = safe_solved_states and sid = "''100''"
        and st = safe_solved_session and pid = "''safe''" and cfg = GAME_CONFIG
        and data = "Dict [''solution'' \<mapsto> JStr ''1234'']"]
    by (simp add: example_states_100 safe_solved_session_fields GAME_CONFIG_puzzle_ids)
  have c: "solve_puzzle GAME_CONFIG ''100'' ''safe'' (Dict [''solution'' \<mapsto> JStr ''4321'']) example_states =
     (Inr (JObj [(''success'', JBool False),
                 (''message'', JStr ''Incorrect solution. Try again.'')], 200), example_states)"
    using solve_puzzle_rejections [where gs = example_states and sid = "''100''"
        and st = fresh_session and pid = "''safe''" and cfg = GAME_CONFIG
        and data = "Dict [''solution'' \<mapsto> JStr ''4321'']"]
    by (simp add: example_states_100 fresh_session_fields GAME_CONFIG_puzzle_ids
        GAME_CONFIG_fields lower_solutions l)
  have d: "solve_puzzle GAME_CONFIG ''100'' ''door'' (Dict [''solution'' \<mapsto> JStr ''1234'']) safe_solved_states =
     (Inr (JObj [(''success'', JBool False),
                 (''message'',
                  JStr ''You need to solve all puzzles before opening the door.'')], 200),
      safe_solved_states)"
    using solve_puzzle_rejections [where gs = safe_solved_states and sid = "''100''"
        and st = safe_solved_session and pid = "''door''" and cfg = GAME_CONFIG
        and data = "Dict [''solution'' \<mapsto> JStr ''1234'']"]
    by (auto simp: example_states_100 safe_solved_session_fields GAME_CONFIG_puzzle_ids
        GAME_CONFIG_fields)
  from a b c d show ?thesis by simp
qed

subsection \<open>A body without the key \<open>solution\<close>\<close>

text \<open>
  Claim C10, as stated, fails in two ways. In the session whose safe is solved, which is
  not completed, a solve request for the safe with the empty object as body is answered
  with status 400 and the already-solved error, not with the incorrect-solution message.
  And in the fresh session a solve request for the safe whose body is the JSON value
  \<open>null\<close>, which holds no key \<open>solution\<close> either, raises \<open>AttributeError\<close>, while the
  empty string as solution gets the incorrect-solution message.
\<close>

theorem solve_puzzle_empty_body_solved:
  "safe_solved_states ''100'' = Some safe_solved_session \<and>
   \<not> completed safe_solved_session \<and>
   solve_puzzle GAME_CONFIG ''100'' ''safe'' (Dict Map.empty) safe_solved_states =
     (Inr (JObj [(''error'', JStr ''Puzzle already solved'')], 400), safe_solved_states) \<and>
   fst (solve_puzzle GAME_CONFIG ''100'' ''safe'' (Dict Map.empty) safe_solved_states) \<noteq>
     Inr (JObj [(''success'', JBool False),
                (''message'', JStr ''Incorrect solution. Try again.'')], 200) \<and>
   solve_puzzle GAME_CONFIG ''100'' ''safe'' PyNone example_states =
     (Inl AttributeError, example_states) \<and>
   solve_puzzle GAME_CONFIG ''100'' ''safe'' (Dict [''solution'' \<mapsto> JStr []]) example_states =
     (Inr (JObj [(''success'', JBool False),
                 (''message'', JStr ''Incorrect solution. Try again.'')], 200), example_states)"
  by (simp add: solve_puzzle_def read_solution_def solve_other_def example_states_100
      safe_solved_session_fields fresh_session_fields GAME_CONFIG_fields lower_solutions)

lemma solve_puzzle_default:
  assumes "data ''solution'' = None"
  shows "solve_puzzle cfg sid pid (Dict data) gs =
    solve_puzzle cfg sid pid (Dict (data(''solution'' \<mapsto> JStr []))) gs"
  using assms by (simp add: solve_puzzle_def read_solution_def Let_def split: option.split bool.split)

lemma solve_puzzle_door_any_body:
  "solve_puzzle cfg sid ''door'' (Dict data) gs = solve_puzzle cfg sid ''door'' (Dict data') gs"
  by (simp add: solve_puzzle_def read_solution_def Let_def split: option.split bool.split)

lemma lower_Nil_iff: "lower s = [] \<longleftrightarrow> s = []"
  by (simp add: lower_def)

text \<open>
  Claim C10, amended. A solve request whose body is a JSON object without the key
  \<open>solution\<close> gives the same outcome as the same request with the empty string as
  solution. Every solution of \<open>GAME_CONFIG\<close> is non-empty, so such a request for a puzzle
  other than the door that is not solved yet, in a session that is not completed, is
  answered with the incorrect-solution message and leaves the sessions as they were. For
  the door the outcome is the same for every body that is a JSON object.
\<close>

theorem solve_puzzle_missing_solution:
  assumes "data ''solution'' = None"
  shows "solve_puzzle cfg sid pid (Dict data) gs =
           solve_puzzle cfg sid pid (Dict (data(''solution'' \<mapsto> JStr []))) gs \<and>
         (\<forall>(k, d) \<in> set (cfg_puzzles GAME_CONFIG). solution d \<noteq> Some []) \<and>
         (gs sid = Some st \<and> \<not> completed st \<and> puzzles st pid = Some False \<and>
          pid \<in> set (map fst (cfg_puzzles GAME_CONFIG)) \<and> pid \<noteq> ''door'' \<longrightarrow>
            solve_puzzle GAME_CONFIG sid pid (Dict data) gs =
              (Inr (JObj [(''success'', JBool False),
                          (''message'', JStr ''Incorrect solution. Try again.'')], 200), gs)) \<and>
         solve_puzzle cfg sid ''door'' (Dict data) gs = solve_puzzle cfg sid ''door'' (Dict data') gs"
proof (intro conjI impI)
  show "solve_puzzle cfg sid pid (Dict data) gs =
      solve_puzzle cfg sid pid (Dict (data(''solution'' \<mapsto> JStr []))) gs"
    using assms by (rule solve_puzzle_default)
  show "\<forall>(k, d) \<in> set (cfg_puzzles GAME_CONFIG). solution d \<noteq> Some []"
    by (simp add: GAME_CONFIG_fields)
  show "solve_puzzle cfg sid ''door'' (Dict data) gs = solve_puzzle cfg sid ''door'' (Dict data') gs"
    by (rule solve_puzzle_door_any_body)
next
  assume a: "gs sid = Some st \<and> \<not> completed st \<and> puzzles st pid = Some False \<and>
          pid \<in> set (map fst (cfg_puzzles GAME_CONFIG)) \<and> pid \<noteq> ''door''"
  then have "pid = ''safe'' \<or> pid = ''bookshelf'' \<or> pid = ''computer''"
    by (auto simp: GAME_CONFIG_fields)
  then obtain d sol where d: "map_of (cfg_puzzles GAME_CONFIG) pid = Some d"
    and sol: "solution d = Some sol" and ne: "sol \<noteq> []"
    by (auto simp: GAME_CONFIG_fields)
  from ne have "lower [] \<noteq> lower sol"
    using lower_Nil_iff [of sol] by (simp add: lower_def)
  then show "solve_puzzle GAME_CONFIG sid pid (Dict data) gs =
      (Inr (JObj [(''success'', JBool False),
                  (''message'', JStr ''Incorrect solution. Try again.'')], 200), gs)"
    using a assms d sol by (simp add: solve_puzzle_def read_solution_def solve_other_def)
qed

theorem solve_puzzle_missing_solution_witness:
  "solve_puzzle GAME_CONFIG ''100'' ''computer'' (Dict Map.empty) example_states =
     solve_puzzle GAME_CONFIG ''100'' ''computer'' (Dict [''solution'' \<mapsto> JStr []]) example_states \<and>
   solve_puzzle GAME_CONFIG ''100'' ''computer'' (Dict Map.empty) example_states =
     (Inr (JObj [(''success'', JBool False),
                 (''message'', JStr ''Incorrect solution. Try again.'')], 200), example_states) \<and>
   solve_puzzle GAME_CONFIG ''100'' ''door'' (Dict Map.empty) example_states =
     solve_puzzle GAME_CONFIG ''100'' ''door'' (Dict [''solution'' \<mapsto> JStr ''open'']) example_states"
proof -
  have e: "(Map.empty :: string \<rightharpoonup> json) ''solution'' = None" by simp
  note h = solve_puzzle_missing_solution [where data = Map.empty and cfg = GAME_CONFIG
      and sid = "''100''" and pid = "''computer''" and gs = example_states
      and st = fresh_session and data' = "[''solution'' \<mapsto> JStr ''open'']", OF e]
  from h have a: "solve_puzzle GAME_CONFIG ''100'' ''computer'' (Dict Map.empty) example_states =
     solve_puzzle GAME_CONFIG ''100'' ''computer'' (Dict [''solution'' \<mapsto> JStr []]) example_states"
    by (rule conjunct1)
  from h [THEN conjunct2, THEN conjunct2, THEN conjunct1]
  have b: "solve_puzzle GAME_CONFIG ''100'' ''computer'' (Dict Map.empty) example_states =
     (Inr (JObj [(''success'', JBool False),
                 (''message'', JStr ''Incorrect solution. Try again.'')], 200), example_states)"
    by (simp add: example_states_100 fresh_session_fields GAME_CONFIG_puzzle_ids)
  from h [THEN conjunct2, THEN conjunct2, THEN conjunct2]
  have c: "solve_puzzle GAME_CONFIG ''100'' ''door'' (Dict Map.empty) example_states =
     solve_puzzle GAME_CONFIG ''100'' ''door'' (Dict [''solution'' \<mapsto> JStr ''open'']) example_states" .
  from a b c show ?thesis by (intro conjI)
qed

end
